theory Spec2Isabelle
  imports Complex_Main "HOL-Library.Char_ord" "HOL-Library.List_Lexorder"
    "HOL-Library.Product_Lexorder" "HOL-Library.Sublist"
begin

section \<open>Strings\<close>

text \<open>
  Python strings are modelled as \<open>string\<close>, that is lists of 8-bit characters: the model
  covers texts in the Latin-1 range. \<open>lower_char\<close> is \<open>str.lower\<close> on one such character:
  the ASCII capitals and the Latin-1 capitals (all of 0xC0..0xDE but the multiplication sign)
  move up by 32, every other character stays.
\<close>

definition lower_char :: "char \<Rightarrow> char" where
  "lower_char c =
     (let n = (of_char c :: nat)
      in if (65 \<le> n \<and> n \<le> 90) \<or> (192 \<le> n \<and> n \<le> 222 \<and> n \<noteq> 215)
         then char_of (n + 32) else c)"

definition lower :: "string \<Rightarrow> string" where
  "lower s = map lower_char s"

text \<open>\<open>sub in s\<close> on Python strings: \<open>sub\<close> occurs in \<open>s\<close> as a contiguous substring.\<close>

definition contains :: "string \<Rightarrow> string \<Rightarrow> bool" where
  "contains sub s = sublist sub s"

section \<open>Bank identification\<close>

text \<open>
  The dictionary \<open>banks\<close> of \<open>identify_bank\<close>. A Python dictionary iterates in insertion
  order, so it is an association list in the order of the source.
\<close>

definition banks :: "(string \<times> string list) list" where
  "banks =
     [(''chase'', [''chase'', ''@chase.com'']),
      (''bank of america'', [''bank of america'', ''bankofamerica'', ''@bofa.com'']),
      (''wells fargo'', [''wells fargo'', ''wellsfargo'', ''@wellsfargo.com'']),
      (''citi'', [''citi'', ''citibank'', ''@citi.com'']),
      (''capital one'', [''capital one'', ''capitalone'', ''@capitalone.com''])]"

text \<open>The inner loop over one bank's identifiers: does any of them hit?\<close>

fun identifiers_hit :: "string list \<Rightarrow> string \<Rightarrow> string \<Rightarrow> bool" where
  "identifiers_hit [] subject sender = False"
| "identifiers_hit (identifier # rest) subject sender =
     (if contains identifier subject \<or> contains identifier sender then True
      else identifiers_hit rest subject sender)"

text \<open>The outer loop over the banks: the first bank with a hit is returned.\<close>

fun banks_loop :: "(string \<times> string list) list \<Rightarrow> string \<Rightarrow> string \<Rightarrow> string option" where
  "banks_loop [] subject sender = None"
| "banks_loop ((bank, identifiers) # rest) subject sender =
     (if identifiers_hit identifiers subject sender then Some bank
      else banks_loop rest subject sender)"

definition identify_bank :: "string \<Rightarrow> string \<Rightarrow> string option" where
  "identify_bank subject0 sender0 =
     (let subject = lower subject0; sender = lower sender0
      in case banks_loop banks subject sender of
           Some bank \<Rightarrow> Some bank
         | None \<Rightarrow> if contains ''statement'' subject then Some ''unknown bank'' else None)"

text \<open>
  The contract of the specification, in its words: the first bank, in registration order,
  one of whose identifying substrings occurs in the lower-cased subject or sender; failing
  that the sentinel when the lower-cased subject contains \<open>statement\<close>; failing that nothing.
\<close>

definition bank_matches :: "string \<Rightarrow> string \<Rightarrow> string \<times> string list \<Rightarrow> bool" where
  "bank_matches subject sender entry =
     (\<exists>identifier \<in> set (snd entry).
        contains identifier (lower subject) \<or> contains identifier (lower sender))"

definition identify_spec :: "string \<Rightarrow> string \<Rightarrow> string option" where
  "identify_spec subject sender =
     (case find (bank_matches subject sender) banks of
        Some entry \<Rightarrow> Some (fst entry)
      | None \<Rightarrow>
          if contains ''statement'' (lower subject) then Some ''unknown bank'' else None)"

section \<open>Amounts\<close>

text \<open>
  The exceptions of the Python code that the model lets happen, as values.
\<close>

datatype py_error = ValueError | IndexError | KeyError | ReadError

text \<open>
  A Python \<open>float\<close>. A finite value is kept as the exact rational that its decimal literal
  denotes: the rounding of CPython to the nearest double (and to an infinity beyond the range
  of doubles) is not modelled, and neither is the sign of zero.
\<close>

datatype pyfloat = Fin rat | PosInf | NegInf | NaN

definition is_digit :: "char \<Rightarrow> bool" where
  "is_digit c = (c \<in> set ''0123456789'')"

definition is_space :: "char \<Rightarrow> bool" where
  \<comment> \<open>the whitespace of \<open>\s\<close> in the Latin-1 range: tab to carriage return, the four
      separators 0x1C..0x1F, the blank, NEL and the no-break space\<close>
  "is_space c =
     (let n = (of_char c :: nat)
      in (9 \<le> n \<and> n \<le> 13) \<or> (28 \<le> n \<and> n \<le> 32) \<or> n = 133 \<or> n = 160)"

definition digit_val :: "char \<Rightarrow> nat" where
  "digit_val c = of_char c - 48"

definition digits_val :: "string \<Rightarrow> nat" where
  "digits_val ds = foldl (\<lambda>a c. 10 * a + digit_val c) 0 ds"

definition is_float_space :: "char \<Rightarrow> bool" where
  \<comment> \<open>the whitespace that \<open>float\<close> drops around a literal: as above without the four
      separators 0x1C..0x1F\<close>
  "is_float_space c =
     (let n = (of_char c :: nat)
      in (9 \<le> n \<and> n \<le> 13) \<or> n = 32 \<or> n = 133 \<or> n = 160)"

definition strip :: "string \<Rightarrow> string" where
  "strip s = rev (dropWhile is_float_space (rev (dropWhile is_float_space s)))"

text \<open>
  An underscore of a numeric literal must stand between two digits; \<open>prev\<close> is the character
  before the rest of the string.
\<close>

fun underscores_ok :: "char option \<Rightarrow> string \<Rightarrow> bool" where
  "underscores_ok prev [] = True"
| "underscores_ok prev (c # cs) =
     (if c = CHR ''_''
      then (case prev of None \<Rightarrow> False | Some p \<Rightarrow> is_digit p)
           \<and> (case cs of [] \<Rightarrow> False | d # _ \<Rightarrow> is_digit d)
           \<and> underscores_ok (Some c) cs
      else underscores_ok (Some c) cs)"

text \<open>An optional sign: whether it is a minus, and what follows it.\<close>

definition split_sign :: "string \<Rightarrow> bool \<times> string" where
  "split_sign s =
     (case s of
        c # cs \<Rightarrow> if c = CHR ''-'' then (True, cs) else if c = CHR ''+'' then (False, cs)
                  else (False, s)
      | [] \<Rightarrow> (False, s))"

text \<open>
  \<open>digits [. digits]\<close> or \<open>. digits\<close>, at least one digit in all, as a rational.
\<close>

definition parse_mantissa :: "string \<Rightarrow> rat option" where
  "parse_mantissa m =
     (let ip = takeWhile (\<lambda>c. c \<noteq> CHR ''.'') m;
          r = dropWhile (\<lambda>c. c \<noteq> CHR ''.'') m;
          fp = (case r of [] \<Rightarrow> [] | _ # f \<Rightarrow> f)
      in if list_all is_digit ip \<and> list_all is_digit fp \<and> (ip \<noteq> [] \<or> fp \<noteq> [])
         then Some (of_nat (digits_val ip) + of_nat (digits_val fp) / 10 ^ length fp)
         else None)"

text \<open>The exponent after \<open>e\<close> or \<open>E\<close>: an optional sign and at least one digit.\<close>

definition parse_exponent :: "string \<Rightarrow> int option" where
  "parse_exponent x =
     (let (neg, ds) = split_sign x
      in if ds \<noteq> [] \<and> list_all is_digit ds
         then Some (if neg then - int (digits_val ds) else int (digits_val ds))
         else None)"

definition is_e :: "char \<Rightarrow> bool" where
  "is_e c = (c = CHR ''e'' \<or> c = CHR ''E'')"

definition parse_decimal :: "string \<Rightarrow> rat option" where
  "parse_decimal body =
     (let m = takeWhile (\<lambda>c. \<not> is_e c) body;
          r = dropWhile (\<lambda>c. \<not> is_e c) body
      in case parse_mantissa m of
           None \<Rightarrow> None
         | Some q \<Rightarrow>
             (case r of
                [] \<Rightarrow> Some q
              | _ # x \<Rightarrow>
                  (case parse_exponent x of
                     None \<Rightarrow> None
                   | Some k \<Rightarrow> Some (if k < 0 then q / 10 ^ nat (- k) else q * 10 ^ nat k))))"

text \<open>
  The builtin \<open>float\<close> on a string, after the grammar of the Python language reference:
  surrounding whitespace is dropped, then comes an optional sign and either \<open>inf\<close>,
  \<open>infinity\<close> or \<open>nan\<close> in any case, or a decimal number with optional exponent, in which
  single underscores may separate digits. Anything else raises \<open>ValueError\<close>.
\<close>

definition py_float :: "string \<Rightarrow> py_error + pyfloat" where
  "py_float s =
     (let (neg, body) = split_sign (strip s)
      in if lower body = ''inf'' \<or> lower body = ''infinity''
         then Inr (if neg then NegInf else PosInf)
         else if lower body = ''nan'' then Inr NaN
         else if \<not> underscores_ok None body then Inl ValueError
         else (case parse_decimal (filter (\<lambda>c. c \<noteq> CHR ''_'') body) of
                 None \<Rightarrow> Inl ValueError
               | Some q \<Rightarrow> Inr (Fin (if neg then - q else q))))"

text \<open>\<open>amount_str.replace(',', '')\<close>: every comma goes.\<close>

definition replace_commas :: "string \<Rightarrow> string" where
  "replace_commas s = filter (\<lambda>c. c \<noteq> CHR '','') s"

text \<open>
  \<open>parse_amount\<close>: the body of the \<open>try\<close>, which may raise, and the function with its bare
  \<open>except\<close>, which turns every exception into \<open>0.0\<close>.
\<close>

definition parse_amount_try :: "string \<Rightarrow> py_error + pyfloat" where
  "parse_amount_try amount_str = py_float (replace_commas amount_str)"

definition parse_amount :: "string \<Rightarrow> pyfloat" where
  "parse_amount amount_str =
     (case parse_amount_try amount_str of Inr v \<Rightarrow> v | Inl e \<Rightarrow> Fin 0)"

section \<open>Regular expressions\<close>

text \<open>
  The fragment of Python's \<open>re\<close> that the patterns of the source use. A character class is
  a set of characters, \<open>.\<close> (any character but the newline), \<open>\d\<close>, \<open>\s\<close> or a union.
\<close>

datatype cls = Chars string | Dot | Digit | Space | Union cls cls

fun in_cls :: "cls \<Rightarrow> char \<Rightarrow> bool" where
  "in_cls (Chars cs) c = (c \<in> set cs)"
| "in_cls Dot c = (c \<noteq> CHR 0x0A)"
| "in_cls Digit c = is_digit c"
| "in_cls Space c = is_space c"
| "in_cls (Union a b) c = (in_cls a c \<or> in_cls b c)"

definition upper_char :: "char \<Rightarrow> char" where
  "upper_char c =
     (let n = (of_char c :: nat)
      in if (97 \<le> n \<and> n \<le> 122) \<or> (224 \<le> n \<and> n \<le> 254 \<and> n \<noteq> 247)
         then char_of (n - 32) else c)"

text \<open>
  Membership under the flags of the search: with \<open>re.IGNORECASE\<close> (\<open>ic\<close>) a character
  belongs to a class when it or its other case does.
\<close>

definition cls_match :: "bool \<Rightarrow> cls \<Rightarrow> char \<Rightarrow> bool" where
  "cls_match ic k c =
     (in_cls k c \<or> (ic \<and> (in_cls k (lower_char c) \<or> in_cls k (upper_char c))))"

text \<open>
  Expressions: one character of a class; a class repeated between \<open>lo\<close> and \<open>hi\<close> times
  (no upper bound for \<open>None\<close>), greedy or lazy; concatenation; alternation \<open>a|b\<close>; a
  capturing group; the empty expression. The source quantifies single characters and
  classes only.
\<close>

datatype re =
    Atom cls
  | Rep cls nat "nat option" bool
  | Cat re re
  | Alt re re
  | Grp re
  | Eps

text \<open>
  The backtracking matcher, as the list of all the ways in which the expression matches a
  prefix of the input, in the order in which backtracking tries them: each is the list of
  captured groups (in the order of their opening parentheses) and the rest of the input.
  A greedy repetition tries the longest run first, a lazy one the shortest; an alternation
  tries its left branch first. The head of the list is the match that Python reports.
\<close>

fun match :: "bool \<Rightarrow> re \<Rightarrow> string \<Rightarrow> (string list \<times> string) list" where
  "match ic (Atom k) s =
     (case s of [] \<Rightarrow> [] | c # cs \<Rightarrow> if cls_match ic k c then [([], cs)] else [])"
| "match ic (Rep k lo hi greedy) s =
     (let run = length (takeWhile (cls_match ic k) s);
          top = (case hi of None \<Rightarrow> run | Some h \<Rightarrow> min h run);
          ns = [lo ..< Suc top]
      in map (\<lambda>n. ([], drop n s)) (if greedy then rev ns else ns))"
| "match ic (Cat a b) s =
     concat (map (\<lambda>(g, s'). map (\<lambda>(h, s''). (g @ h, s'')) (match ic b s')) (match ic a s))"
| "match ic (Alt a b) s = match ic a s @ match ic b s"
| "match ic (Grp a) s =
     map (\<lambda>(g, s'). (take (length s - length s') s # g, s')) (match ic a s)"
| "match ic Eps s = [([], s)]"

text \<open>
  \<open>re.search\<close>: the first start position, from the left, at which the expression matches;
  the result is the list of the groups of that match.
\<close>

fun search :: "bool \<Rightarrow> re \<Rightarrow> string \<Rightarrow> string list option" where
  "search ic r [] = (case match ic r [] of [] \<Rightarrow> None | (g, _) # _ \<Rightarrow> Some g)"
| "search ic r (c # cs) =
     (case match ic r (c # cs) of [] \<Rightarrow> search ic r cs | (g, _) # _ \<Rightarrow> Some g)"

text \<open>\<open>m.group(n)\<close> for \<open>n \<ge> 1\<close>: a group that the pattern does not have raises.\<close>

definition group :: "string list \<Rightarrow> nat \<Rightarrow> py_error + string" where
  "group gs n = (if 1 \<le> n \<and> n \<le> length gs then Inr (gs ! (n - 1)) else Inl IndexError)"

subsection \<open>The patterns of the source\<close>

definition cats :: "re list \<Rightarrow> re" where
  "cats rs = foldr Cat rs Eps"

definition lit :: "string \<Rightarrow> re" where
  \<comment> \<open>a run of literal characters\<close>
  "lit w = foldr (\<lambda>c r. Cat (Atom (Chars [c])) r) w Eps"

definition one_of :: "string \<Rightarrow> re" where
  \<comment> \<open>a bracketed class such as \<open>[Ee]\<close>\<close>
  "one_of cs = Atom (Chars cs)"

definition opt :: "cls \<Rightarrow> re" where
  \<comment> \<open>\<open>x?\<close>\<close>
  "opt k = Rep k 0 (Some 1) True"

definition spaces :: re where
  \<comment> \<open>\<open>\s*\<close>\<close>
  "spaces = Rep Space 0 None True"

definition lazy_any :: re where
  \<comment> \<open>\<open>.*?\<close>\<close>
  "lazy_any = Rep Dot 0 None False"

definition digits :: "nat \<Rightarrow> re" where
  \<comment> \<open>\<open>\d{n}\<close>\<close>
  "digits n = Rep Digit n (Some n) True"

definition money_re :: re where
  \<comment> \<open>\<open>[\$]?([\d,]+\.\d{2})\<close>\<close>
  "money_re =
     Cat (opt (Chars ''$''))
       (Grp (cats [Rep (Union Digit (Chars '','')) 1 None True, one_of ''.'', digits 2]))"

definition date_re :: re where
  \<comment> \<open>\<open>(\d{2}/\d{2}/\d{4})\<close>\<close>
  "date_re = Grp (cats [digits 2, one_of ''/'', digits 2, one_of ''/'', digits 4])"

definition ending_balance_re :: re where
  \<comment> \<open>\<open>[Ee]nding [Bb]alance.*?[\$]?([\d,]+\.\d{2})\<close>\<close>
  "ending_balance_re =
     cats [one_of ''Ee'', lit ''nding '', one_of ''Bb'', lit ''alance'', lazy_any, money_re]"

definition period_label_re :: re where
  \<comment> \<open>\<open>[Ss]tatement [Pp]eriod:?\s*\<close>\<close>
  "period_label_re =
     cats [one_of ''Ss'', lit ''tatement '', one_of ''Pp'', lit ''eriod'', opt (Chars '':''),
           spaces]"

definition period_class_re :: re where
  \<comment> \<open>\<open>[Ss]tatement [Pp]eriod:?\s*(\d{2}/\d{2}/\d{4})\s*[to|-]\s*(\d{2}/\d{2}/\d{4})\<close>:
      the bracket \<open>[to|-]\<close> is a class of the four characters \<open>t\<close>, \<open>o\<close>, \<open>|\<close>, \<open>-\<close>\<close>
  "period_class_re =
     cats [period_label_re, date_re, spaces, one_of ''to|-'', spaces, date_re]"

definition range_word_re :: re where
  \<comment> \<open>\<open>(?:through|to|-)\<close>\<close>
  "range_word_re = Alt (lit ''through'') (Alt (lit ''to'') (lit ''-''))"

definition period_words_re :: re where
  \<comment> \<open>\<open>[Ss]tatement [Pp]eriod:?\s*(\d{2}/\d{2}/\d{4})\s*(?:through|to|-)\s*(\d{2}/\d{2}/\d{4})\<close>\<close>
  "period_words_re =
     cats [period_label_re, date_re, spaces, range_word_re, spaces, date_re]"

definition period_dash_re :: re where
  \<comment> \<open>\<open>[Ss]tatement [Pp]eriod:?\s*(\d{2}/\d{2}/\d{4})\s*-\s*(\d{2}/\d{2}/\d{4})\<close>\<close>
  "period_dash_re =
     cats [period_label_re, date_re, spaces, lit ''-'', spaces, date_re]"

definition chase_deposits_re :: re where
  \<comment> \<open>\<open>[Tt]otal [Dd]eposits (?:and [Cc]redits|and [Oo]ther [Aa]dditions).*?[\$]?([\d,]+\.\d{2})\<close>\<close>
  "chase_deposits_re =
     cats [one_of ''Tt'', lit ''otal '', one_of ''Dd'', lit ''eposits '',
           Alt (cats [lit ''and '', one_of ''Cc'', lit ''redits''])
               (cats [lit ''and '', one_of ''Oo'', lit ''ther '', one_of ''Aa'', lit ''dditions'']),
           lazy_any, money_re]"

definition chase_withdrawals_re :: re where
  \<comment> \<open>\<open>[Tt]otal [Ww]ithdrawals (?:and [Dd]ebits|and [Ff]ees).*?[\$]?([\d,]+\.\d{2})\<close>\<close>
  "chase_withdrawals_re =
     cats [one_of ''Tt'', lit ''otal '', one_of ''Ww'', lit ''ithdrawals '',
           Alt (cats [lit ''and '', one_of ''Dd'', lit ''ebits''])
               (cats [lit ''and '', one_of ''Ff'', lit ''ees'']),
           lazy_any, money_re]"

definition bofa_deposits_re :: re where
  \<comment> \<open>\<open>[Tt]otal deposits.*?[\$]?([\d,]+\.\d{2})\<close>, searched with \<open>re.IGNORECASE\<close>\<close>
  "bofa_deposits_re = cats [one_of ''Tt'', lit ''otal deposits'', lazy_any, money_re]"

definition bofa_withdrawals_re :: re where
  \<comment> \<open>\<open>[Tt]otal withdrawals.*?[\$]?([\d,]+\.\d{2})\<close>, searched with \<open>re.IGNORECASE\<close>\<close>
  "bofa_withdrawals_re = cats [one_of ''Tt'', lit ''otal withdrawals'', lazy_any, money_re]"

definition total_deposits_re :: re where
  \<comment> \<open>\<open>[Tt]otal [Dd]eposits.*?[\$]?([\d,]+\.\d{2})\<close>\<close>
  "total_deposits_re =
     cats [one_of ''Tt'', lit ''otal '', one_of ''Dd'', lit ''eposits'', lazy_any, money_re]"

definition total_withdrawals_re :: re where
  \<comment> \<open>\<open>[Tt]otal [Ww]ithdrawals.*?[\$]?([\d,]+\.\d{2})\<close>\<close>
  "total_withdrawals_re =
     cats [one_of ''Tt'', lit ''otal '', one_of ''Ww'', lit ''ithdrawals'', lazy_any, money_re]"

definition total_credits_re :: re where
  \<comment> \<open>\<open>[Tt]otal [Cc]redits.*?[\$]?([\d,]+\.\d{2})\<close>\<close>
  "total_credits_re =
     cats [one_of ''Tt'', lit ''otal '', one_of ''Cc'', lit ''redits'', lazy_any, money_re]"

definition total_debits_re :: re where
  \<comment> \<open>\<open>[Tt]otal [Dd]ebits.*?[\$]?([\d,]+\.\d{2})\<close>\<close>
  "total_debits_re =
     cats [one_of ''Tt'', lit ''otal '', one_of ''Dd'', lit ''ebits'', lazy_any, money_re]"

definition citi_balance_re :: re where
  \<comment> \<open>\<open>[Bb]alance on \d{2}/\d{2}/\d{4}.*?[\$]?([\d,]+\.\d{2})\<close>\<close>
  "citi_balance_re =
     cats [one_of ''Bb'', lit ''alance on '', digits 2, one_of ''/'', digits 2, one_of ''/'',
           digits 4, lazy_any, money_re]"

definition balance_colon_re :: re where
  \<comment> \<open>\<open>[Bb]alance:?\s*[\$]?([\d,]+\.\d{2})\<close>\<close>
  "balance_colon_re =
     cats [one_of ''Bb'', lit ''alance'', opt (Chars '':''), spaces, money_re]"

definition closing_balance_re :: re where
  \<comment> \<open>\<open>[Cc]losing [Bb]alance.*?[\$]?([\d,]+\.\d{2})\<close>\<close>
  "closing_balance_re =
     cats [one_of ''Cc'', lit ''losing '', one_of ''Bb'', lit ''alance'', lazy_any, money_re]"

definition total_balance_re :: re where
  \<comment> \<open>\<open>[Tt]otal [Bb]alance.*?[\$]?([\d,]+\.\d{2})\<close>\<close>
  "total_balance_re =
     cats [one_of ''Tt'', lit ''otal '', one_of ''Bb'', lit ''alance'', lazy_any, money_re]"

definition statement_date_re :: re where
  \<comment> \<open>\<open>[Ss]tatement [Dd]ate:?\s*(\d{2}/\d{2}/\d{4})\<close>\<close>
  "statement_date_re =
     cats [one_of ''Ss'', lit ''tatement '', one_of ''Dd'', lit ''ate'', opt (Chars '':''),
           spaces, date_re]"

definition bare_period_re :: re where
  \<comment> \<open>\<open>[Pp]eriod:?\s*(\d{2}/\d{2}/\d{4})\s*(?:through|to|-)\s*(\d{2}/\d{2}/\d{4})\<close>\<close>
  "bare_period_re =
     cats [one_of ''Pp'', lit ''eriod'', opt (Chars '':''), spaces, date_re, spaces,
           range_word_re, spaces, date_re]"

definition deposits_sum_re :: re where
  \<comment> \<open>\<open>[Dd]eposits [Ss]um:?\s*[\$]?([\d,]+\.\d{2})\<close>\<close>
  "deposits_sum_re =
     cats [one_of ''Dd'', lit ''eposits '', one_of ''Ss'', lit ''um'', opt (Chars '':''),
           spaces, money_re]"

definition withdrawals_sum_re :: re where
  \<comment> \<open>\<open>[Ww]ithdrawals [Ss]um:?\s*[\$]?([\d,]+\.\d{2})\<close>\<close>
  "withdrawals_sum_re =
     cats [one_of ''Ww'', lit ''ithdrawals '', one_of ''Ss'', lit ''um'', opt (Chars '':''),
           spaces, money_re]"

definition filename_date_re :: re where
  \<comment> \<open>\<open>(\d{2,4}[-_]?\d{2}[-_]?\d{2,4})\<close>\<close>
  "filename_date_re =
     Grp (cats [Rep Digit 2 (Some 4) True, opt (Chars ''-_''), digits 2, opt (Chars ''-_''),
                Rep Digit 2 (Some 4) True])"

definition balance_patterns :: "re list" where
  "balance_patterns =
     [ending_balance_re, balance_colon_re, closing_balance_re, total_balance_re]"

definition period_patterns :: "re list" where
  "period_patterns = [period_words_re, statement_date_re, bare_period_re]"

definition credit_patterns :: "re list" where
  "credit_patterns = [total_deposits_re, total_credits_re, deposits_sum_re]"

definition debit_patterns :: "re list" where
  "debit_patterns = [total_withdrawals_re, total_debits_re, withdrawals_sum_re]"

section \<open>Field extraction\<close>

text \<open>
  The dictionary \<open>data\<close> of the source. \<open>None\<close> is Python's \<open>None\<close>.
\<close>

record statement_data =
  bank :: string
  date :: "string option"
  closing_balance :: "pyfloat option"
  total_credits :: pyfloat
  total_debits :: pyfloat
  statement_period :: "string option"

text \<open>
  The extraction methods assign to the one dictionary they are given, so an exception
  leaves the caller with the assignments made before it. An outcome is therefore the
  dictionary as it stands together with the exception raised, if any.
\<close>

type_synonym outcome = "statement_data \<times> py_error option"

fun and_then :: "outcome \<Rightarrow> (statement_data \<Rightarrow> outcome) \<Rightarrow> outcome" where
  "and_then (d, Some e) f = (d, Some e)"
| "and_then (d, None) f = f d"

text \<open>\<open>s.split('/')\<close> and list indexing, which raises out of range.\<close>

fun split_on :: "char \<Rightarrow> string \<Rightarrow> string list" where
  "split_on sep [] = [[]]"
| "split_on sep (c # cs) =
     (if c = sep then [] # split_on sep cs
      else (case split_on sep cs of [] \<Rightarrow> [[c]] | p # ps \<Rightarrow> (c # p) # ps))"

definition index :: "'a list \<Rightarrow> nat \<Rightarrow> py_error + 'a" where
  "index xs i = (if i < length xs then Inr (xs ! i) else Inl IndexError)"

text \<open>\<open>f"{date_parts[2]}-{date_parts[0]}"\<close>\<close>

definition year_month :: "string list \<Rightarrow> py_error + string" where
  "year_month date_parts =
     (case index date_parts 2 of
        Inl e \<Rightarrow> Inl e
      | Inr y \<Rightarrow> (case index date_parts 0 of Inl e \<Rightarrow> Inl e | Inr m \<Rightarrow> Inr (y @ ''-'' @ m)))"

text \<open>
  The step that every rule set repeats for an amount: search, and on a match store the
  parsed first group with the given assignment.
\<close>

definition amount_step ::
  "string list option \<Rightarrow> (pyfloat \<Rightarrow> statement_data \<Rightarrow> statement_data) \<Rightarrow> statement_data \<Rightarrow> outcome"
where
  "amount_step found assign data =
     (case found of
        None \<Rightarrow> (data, None)
      | Some gs \<Rightarrow>
          (case group gs 1 of
             Inl e \<Rightarrow> (data, Some e)
           | Inr g \<Rightarrow> (assign (parse_amount g) data, None)))"

text \<open>The step for a period of two dates: the period string, then the date of its end.\<close>

definition two_dates :: "string list \<Rightarrow> statement_data \<Rightarrow> outcome" where
  "two_dates gs data =
     (case group gs 1 of
        Inl e \<Rightarrow> (data, Some e)
      | Inr g1 \<Rightarrow>
          (case group gs 2 of
             Inl e \<Rightarrow> (data, Some e)
           | Inr g2 \<Rightarrow>
               (let data1 = data\<lparr>statement_period := Some (g1 @ '' - '' @ g2)\<rparr>
                in case year_month (split_on CHR ''/'' g2) of
                     Inl e \<Rightarrow> (data1, Some e)
                   | Inr d \<Rightarrow> (data1\<lparr>date := Some d\<rparr>, None))))"

definition period_step :: "string list option \<Rightarrow> statement_data \<Rightarrow> outcome" where
  "period_step found data =
     (case found of None \<Rightarrow> (data, None) | Some gs \<Rightarrow> two_dates gs data)"

definition set_closing_balance :: "pyfloat \<Rightarrow> statement_data \<Rightarrow> statement_data" where
  "set_closing_balance v data = data\<lparr>closing_balance := Some v\<rparr>"

definition set_total_credits :: "pyfloat \<Rightarrow> statement_data \<Rightarrow> statement_data" where
  "set_total_credits v data = data\<lparr>total_credits := v\<rparr>"

definition set_total_debits :: "pyfloat \<Rightarrow> statement_data \<Rightarrow> statement_data" where
  "set_total_debits v data = data\<lparr>total_debits := v\<rparr>"

definition extract_chase_data :: "string \<Rightarrow> statement_data \<Rightarrow> outcome" where
  "extract_chase_data text data =
     and_then (and_then (and_then
       (amount_step (search False ending_balance_re text) set_closing_balance data)
       (period_step (search False period_class_re text)))
       (amount_step (search False chase_deposits_re text) set_total_credits))
       (amount_step (search False chase_withdrawals_re text) set_total_debits)"

definition extract_bofa_data :: "string \<Rightarrow> statement_data \<Rightarrow> outcome" where
  "extract_bofa_data text data =
     and_then (and_then (and_then
       (amount_step (search False ending_balance_re text) set_closing_balance data)
       (period_step (search False period_class_re text)))
       (amount_step (search True bofa_deposits_re text) set_total_credits))
       (amount_step (search True bofa_withdrawals_re text) set_total_debits)"

definition extract_wells_fargo_data :: "string \<Rightarrow> statement_data \<Rightarrow> outcome" where
  "extract_wells_fargo_data text data =
     and_then (and_then (and_then
       (amount_step (search False ending_balance_re text) set_closing_balance data)
       (period_step (search False period_class_re text)))
       (amount_step (search False total_deposits_re text) set_total_credits))
       (amount_step (search False total_withdrawals_re text) set_total_debits)"

definition extract_citi_data :: "string \<Rightarrow> statement_data \<Rightarrow> outcome" where
  "extract_citi_data text data =
     and_then (and_then (and_then
       (amount_step (search False citi_balance_re text) set_closing_balance data)
       (period_step (search False period_words_re text)))
       (amount_step (search False total_credits_re text) set_total_credits))
       (amount_step (search False total_debits_re text) set_total_debits)"

definition extract_capital_one_data :: "string \<Rightarrow> statement_data \<Rightarrow> outcome" where
  "extract_capital_one_data text data =
     and_then (and_then (and_then
       (amount_step (search False ending_balance_re text) set_closing_balance data)
       (period_step (search False period_dash_re text)))
       (amount_step (search False total_credits_re text) set_total_credits))
       (amount_step (search False total_debits_re text) set_total_debits)"

text \<open>
  The loops of the generic rule set: the patterns are searched in order and the first that
  matches ends the loop.
\<close>

fun first_search :: "re list \<Rightarrow> string \<Rightarrow> string list option" where
  "first_search [] text = None"
| "first_search (pattern # rest) text =
     (case search False pattern text of
        Some gs \<Rightarrow> Some gs
      | None \<Rightarrow> first_search rest text)"

text \<open>The branch of the generic period loop for a pattern with a single date.\<close>

definition one_date :: "string list \<Rightarrow> statement_data \<Rightarrow> outcome" where
  "one_date gs data =
     (case group gs 1 of
        Inl e \<Rightarrow> (data, Some e)
      | Inr g1 \<Rightarrow>
          (let data1 = data\<lparr>statement_period := Some g1\<rparr>
           in case year_month (split_on CHR ''/'' g1) of
                Inl e \<Rightarrow> (data1, Some e)
              | Inr d \<Rightarrow> (data1\<lparr>date := Some d\<rparr>, None)))"

definition generic_period_step :: "string list option \<Rightarrow> statement_data \<Rightarrow> outcome" where
  "generic_period_step found data =
     (case found of
        None \<Rightarrow> (data, None)
      | Some gs \<Rightarrow> if length gs > 1 then two_dates gs data else one_date gs data)"

definition extract_generic_bank_data :: "string \<Rightarrow> statement_data \<Rightarrow> outcome" where
  "extract_generic_bank_data text data =
     and_then (and_then (and_then
       (amount_step (first_search balance_patterns text) set_closing_balance data)
       (generic_period_step (first_search period_patterns text)))
       (amount_step (first_search credit_patterns text) set_total_credits))
       (amount_step (first_search debit_patterns text) set_total_debits)"

subsection \<open>Extraction from a document\<close>

text \<open>
  What opening and reading the PDF gives is the external part: either opening it raises,
  or it has pages, each of which yields its text or raises. The loop appends the texts.
\<close>

type_synonym pdf = "py_error + (py_error + string) list"

fun read_pages :: "(py_error + string) list \<Rightarrow> string \<Rightarrow> py_error + string" where
  "read_pages [] text = Inr text"
| "read_pages (page # pages) text =
     (case page of Inl e \<Rightarrow> Inl e | Inr t \<Rightarrow> read_pages pages (text @ t))"

definition initial_data :: "string \<Rightarrow> statement_data" where
  "initial_data bank_name =
     \<lparr>bank = bank_name, date = None, closing_balance = None, total_credits = Fin 0,
      total_debits = Fin 0, statement_period = None\<rparr>"

text \<open>The chain of \<open>if\<close>/\<open>elif\<close> on the lower-cased bank name.\<close>

definition dispatch :: "string \<Rightarrow> string \<Rightarrow> statement_data \<Rightarrow> outcome" where
  "dispatch bank_name text data =
     (let b = lower bank_name
      in if contains ''chase'' b then extract_chase_data text data
         else if contains ''bank of america'' b then extract_bofa_data text data
         else if contains ''wells fargo'' b then extract_wells_fargo_data text data
         else if contains ''citi'' b then extract_citi_data text data
         else if contains ''capital one'' b then extract_capital_one_data text data
         else extract_generic_bank_data text data)"

text \<open>\<open>os.path.basename\<close>: what follows the last slash.\<close>

definition basename :: "string \<Rightarrow> string" where
  "basename path = rev (takeWhile (\<lambda>c. c \<noteq> CHR ''/'') (rev path))"

text \<open>\<open>not data['date']\<close>: \<open>None\<close> and the empty string are false.\<close>

definition falsy :: "string option \<Rightarrow> bool" where
  "falsy d = (case d of None \<Rightarrow> True | Some s \<Rightarrow> s = [])"

text \<open>
  The inner \<open>try\<close> with its bare \<open>except\<close>: the date found in the file name, or the current
  year and month \<open>now\<close> (what \<open>datetime.datetime.now().strftime('%Y-%m')\<close> gives), also
  when anything raises.
\<close>

definition fallback_date :: "string \<Rightarrow> string \<Rightarrow> string" where
  "fallback_date pdf_path now =
     (case search False filename_date_re (basename pdf_path) of
        None \<Rightarrow> now
      | Some gs \<Rightarrow> (case group gs 1 of Inl e \<Rightarrow> now | Inr g \<Rightarrow> g))"

text \<open>The body of the outer \<open>try\<close>, with the dictionary as it stands when it is left.\<close>

definition try_body :: "string \<Rightarrow> string \<Rightarrow> pdf \<Rightarrow> string \<Rightarrow> outcome" where
  "try_body pdf_path bank_name document now =
     (let data = initial_data bank_name
      in case document of
           Inl e \<Rightarrow> (data, Some e)
         | Inr pages \<Rightarrow>
             (case read_pages pages [] of
                Inl e \<Rightarrow> (data, Some e)
              | Inr text \<Rightarrow>
                  and_then (dispatch bank_name text data)
                    (\<lambda>d. if falsy (date d)
                         then (d\<lparr>date := Some (fallback_date pdf_path now)\<rparr>, None)
                         else (d, None))))"

text \<open>
  \<open>extract_data_from_pdf\<close>: \<open>except Exception\<close> prints the exception and the function
  returns the dictionary.
\<close>

definition extract_data_from_pdf :: "string \<Rightarrow> string \<Rightarrow> pdf \<Rightarrow> string \<Rightarrow> statement_data" where
  "extract_data_from_pdf pdf_path bank_name document now =
     fst (try_body pdf_path bank_name document now)"

section \<open>The persisted dataset\<close>

text \<open>Subtraction and addition of floats, with the infinities and NaN of IEEE 754.\<close>

fun fsub :: "pyfloat \<Rightarrow> pyfloat \<Rightarrow> pyfloat" where
  "fsub NaN y = NaN"
| "fsub x NaN = NaN"
| "fsub (Fin a) (Fin b) = Fin (a - b)"
| "fsub (Fin a) PosInf = NegInf"
| "fsub (Fin a) NegInf = PosInf"
| "fsub PosInf PosInf = NaN"
| "fsub PosInf y = PosInf"
| "fsub NegInf NegInf = NaN"
| "fsub NegInf y = NegInf"

fun fadd :: "pyfloat \<Rightarrow> pyfloat \<Rightarrow> pyfloat" where
  "fadd NaN y = NaN"
| "fadd x NaN = NaN"
| "fadd (Fin a) (Fin b) = Fin (a + b)"
| "fadd (Fin a) y = y"
| "fadd PosInf NegInf = NaN"
| "fadd PosInf y = PosInf"
| "fadd NegInf PosInf = NaN"
| "fadd NegInf y = NegInf"

text \<open>
  A date as a frame of pandas holds it: missing (\<open>None\<close> or NaN), a string, or an integer.
  The extraction produces strings only; integers come from reading the file back.
\<close>

datatype date_value = Missing | Str string | Num nat

text \<open>
  A row of the frames of \<open>write_to_excel\<close> and of the sheet \<open>Bank Statements\<close> that it
  writes: the extracted fields and the two derived columns.
\<close>

record frame_row =
  bank_col :: string
  date_col :: date_value
  closing_balance_col :: "pyfloat option"
  total_credits_col :: pyfloat
  total_debits_col :: pyfloat
  statement_period_col :: "string option"
  net_cash_flow_col :: pyfloat
  month_col :: "string option"

text \<open>
  The row of \<open>pd.DataFrame(data_list)\<close> for one dictionary, with
  \<open>net_cash_flow = total_credits - total_debits\<close> and the month \<open>m\<close>.
\<close>

definition frame_row_of :: "statement_data \<Rightarrow> string option \<Rightarrow> frame_row" where
  "frame_row_of d m =
     \<lparr>bank_col = bank d,
      date_col = (case date d of None \<Rightarrow> Missing | Some s \<Rightarrow> Str s),
      closing_balance_col = closing_balance d,
      total_credits_col = total_credits d, total_debits_col = total_debits d,
      statement_period_col = statement_period d,
      net_cash_flow_col = fsub (total_credits d) (total_debits d), month_col = m\<rparr>"

text \<open>A loop that stops at the first exception.\<close>

fun collect :: "('a \<Rightarrow> py_error + 'b) \<Rightarrow> 'a list \<Rightarrow> py_error + 'b list" where
  "collect f [] = Inr []"
| "collect f (x # xs) =
     (case f x of
        Inl e \<Rightarrow> Inl e
      | Inr y \<Rightarrow> (case collect f xs of Inl e \<Rightarrow> Inl e | Inr ys \<Rightarrow> Inr (y # ys)))"

text \<open>
  The frame that \<open>write_to_excel\<close> builds from \<open>data_list\<close> before it sorts: an empty list
  makes a frame without columns, on which \<open>df['total_credits']\<close> raises \<open>KeyError\<close>;
  \<open>to_month\<close> stands for \<open>pd.to_datetime(...).dt.strftime('%B %Y')\<close> of pandas on one date,
  which raises on a date that it cannot parse.
\<close>

definition build_frame ::
  "(string option \<Rightarrow> py_error + string option) \<Rightarrow> statement_data list
     \<Rightarrow> py_error + frame_row list"
where
  "build_frame to_month data_list =
     (if data_list = [] then Inl KeyError
      else collect (\<lambda>d. case to_month (date d) of
                           Inl e \<Rightarrow> Inl e
                         | Inr m \<Rightarrow> Inr (frame_row_of d m)) data_list)"

text \<open>
  \<open>sort_values(['date', 'bank'])\<close>: a stable sort on the pair. In a column of dates the
  integers come first, in their order, then the strings, in the order of their characters'
  codes, then the missing dates.
\<close>

definition date_key :: "date_value \<Rightarrow> nat \<times> nat \<times> string" where
  "date_key v = (case v of Num n \<Rightarrow> (0, n, []) | Str s \<Rightarrow> (1, 0, s) | Missing \<Rightarrow> (2, 0, []))"

definition row_key :: "frame_row \<Rightarrow> (nat \<times> nat \<times> string) \<times> string" where
  "row_key r = (date_key (date_col r), bank_col r)"

definition sort_values :: "frame_row list \<Rightarrow> frame_row list" where
  "sort_values rows = sort_key row_key rows"

text \<open>
  \<open>drop_duplicates(subset=['bank', 'date'], keep='last')\<close>: a row stays when no later row
  has its bank and date. An integer and a string are different dates, whatever their digits.
\<close>

definition dup_key :: "frame_row \<Rightarrow> string \<times> date_value" where
  "dup_key r = (bank_col r, date_col r)"

fun drop_duplicates_last :: "frame_row list \<Rightarrow> frame_row list" where
  "drop_duplicates_last [] = []"
| "drop_duplicates_last (r # rs) =
     (if dup_key r \<in> dup_key ` set rs then drop_duplicates_last rs
      else r # drop_duplicates_last rs)"

text \<open>
  \<open>pd.read_excel\<close> infers the type of every column of the sheet: a column all of whose
  cells are empty, numbers or texts that read as numbers comes back as numbers, any other
  column as it was written. Of the columns of this sheet only \<open>date\<close> can change so (a bank
  name, a statement period and a month never read as numbers), and among the dates that the
  extraction stores, year and month with a hyphen or a match of the file name pattern, the
  texts that read as numbers are those of digits only.
\<close>

definition numeric_date :: "date_value \<Rightarrow> bool" where
  "numeric_date v =
     (case v of Missing \<Rightarrow> True | Num n \<Rightarrow> True | Str s \<Rightarrow> s \<noteq> [] \<and> list_all is_digit s)"

definition as_number :: "date_value \<Rightarrow> date_value" where
  "as_number v = (case v of Str s \<Rightarrow> Num (digits_val s) | _ \<Rightarrow> v)"

definition read_excel :: "frame_row list \<Rightarrow> frame_row list" where
  "read_excel stored =
     (if list_all (\<lambda>r. numeric_date (date_col r)) stored
      then map (\<lambda>r. r\<lparr>date_col := as_number (date_col r)\<rparr>) stored
      else stored)"

text \<open>
  \<open>write_to_excel\<close>. The file is \<open>None\<close> when \<open>bank_reports.xlsx\<close> does not exist and the
  rows of its sheet as they were written otherwise. The result is the rows of the sheet
  afterwards and the frame that is returned.
\<close>

definition write_to_excel ::
  "(string option \<Rightarrow> py_error + string option) \<Rightarrow> frame_row list option
     \<Rightarrow> statement_data list \<Rightarrow> py_error + (frame_row list \<times> frame_row list)"
where
  "write_to_excel to_month file data_list =
     (case build_frame to_month data_list of
        Inl e \<Rightarrow> Inl e
      | Inr frame \<Rightarrow>
          (let df = sort_values frame
           in case file of
                None \<Rightarrow> Inr (df, df)
              | Some stored \<Rightarrow>
                  (let existing_df = read_excel stored;
                       combined_df = existing_df @ df;
                       combined_df = drop_duplicates_last combined_df;
                       combined_df = sort_values combined_df
                   in Inr (combined_df, df))))"

section \<open>The monthly report\<close>

text \<open>
  A row of the sheet \<open>Bank Statements\<close> as \<open>create_monthly_report\<close> reads it: the
  extracted fields and the two derived columns. An empty cell is \<open>None\<close>.
\<close>

record statement_row = statement_data +
  net_cash_flow :: pyfloat
  month :: "string option"

definition row_of :: "statement_data \<Rightarrow> string option \<Rightarrow> statement_row" where
  "row_of d m =
     \<lparr>bank = bank d, date = date d, closing_balance = closing_balance d,
      total_credits = total_credits d, total_debits = total_debits d,
      statement_period = statement_period d,
      net_cash_flow = fsub (total_credits d) (total_debits d), month = m\<rparr>"

text \<open>
  A cell of the report sheet: a text, a number, nothing, or the formula
  \<open>=SUM(c lo:c hi)\<close> over rows \<open>lo\<close> to \<open>hi\<close> of column \<open>c\<close>. A sheet maps addresses such as
  \<open>(CHR ''A'', 4)\<close> for \<open>A4\<close> to cells.
\<close>

datatype cell = Text string | Number pyfloat | Blank | Sum_formula char nat nat

type_synonym sheet = "char \<times> nat \<Rightarrow> cell option"

definition balance_cell :: "pyfloat option \<Rightarrow> cell" where
  "balance_cell b = (case b of None \<Rightarrow> Blank | Some v \<Rightarrow> Number v)"

text \<open>The loop over \<open>month_data.iterrows()\<close>, with its row counter.\<close>

fun write_rows :: "statement_row list \<Rightarrow> nat \<Rightarrow> sheet \<Rightarrow> sheet \<times> nat" where
  "write_rows [] row sh = (sh, row)"
| "write_rows (bank_data # rest) row sh =
     write_rows rest (row + 1)
       (sh((CHR ''A'', row) \<mapsto> Text (bank bank_data),
           (CHR ''B'', row) \<mapsto> balance_cell (closing_balance bank_data),
           (CHR ''C'', row) \<mapsto> Number (total_credits bank_data),
           (CHR ''D'', row) \<mapsto> Number (total_debits bank_data),
           (CHR ''E'', row) \<mapsto> Number (net_cash_flow bank_data)))"

text \<open>
  \<open>create_monthly_report\<close>: the cells of the new sheet, or \<open>None\<close> when the function returns
  without a report (no file, no rows, no rows of the current month). \<open>current_month\<close> is what
  \<open>datetime.datetime.now().strftime('%Y-%m')\<close> gives and \<open>title\<close> the text of \<open>A1\<close>. The chart and
  the formats of cells and columns are not cells and are left out.
\<close>

definition create_monthly_report :: "statement_row list option \<Rightarrow> string \<Rightarrow> string \<Rightarrow> sheet option" where
  "create_monthly_report file current_month title =
     (case file of
        None \<Rightarrow> None
      | Some df \<Rightarrow>
          if df = [] then None
          else
            (let month_data = filter (\<lambda>r. date r = Some current_month) df
             in if month_data = [] then None
                else
                  (let sh0 = Map.empty
                         ((CHR ''A'', 1) \<mapsto> Text title,
                          (CHR ''A'', 3) \<mapsto> Text ''Bank'',
                          (CHR ''B'', 3) \<mapsto> Text ''Closing Balance'',
                          (CHR ''C'', 3) \<mapsto> Text ''Total Credits'',
                          (CHR ''D'', 3) \<mapsto> Text ''Total Debits'',
                          (CHR ''E'', 3) \<mapsto> Text ''Net Cash Flow'');
                       (sh1, row) = write_rows month_data 4 sh0;
                       total_row = row;
                       sh2 = sh1
                         ((CHR ''A'', total_row) \<mapsto> Text ''TOTAL'',
                          (CHR ''B'', total_row) \<mapsto> Sum_formula CHR ''B'' 4 (row - 1),
                          (CHR ''C'', total_row) \<mapsto> Sum_formula CHR ''C'' 4 (row - 1),
                          (CHR ''D'', total_row) \<mapsto> Sum_formula CHR ''D'' 4 (row - 1),
                          (CHR ''E'', total_row) \<mapsto> Sum_formula CHR ''E'' 4 (row - 1));
                       chart_row = row + 2
                   in Some (sh2((CHR ''A'', chart_row) \<mapsto> Text ''Net Cash Flow by Bank'')))))"

text \<open>
  What the spreadsheet shows for a cell. \<open>SUM\<close> adds the numbers of its range and passes
  over empty cells and texts.
\<close>

definition float_sum :: "pyfloat list \<Rightarrow> pyfloat" where
  "float_sum vs = foldl fadd (Fin 0) vs"

fun numbers :: "cell option list \<Rightarrow> pyfloat list" where
  "numbers [] = []"
| "numbers (Some (Number v) # cs) = v # numbers cs"
| "numbers (c # cs) = numbers cs"

definition sum_range :: "sheet \<Rightarrow> char \<Rightarrow> nat \<Rightarrow> nat \<Rightarrow> pyfloat" where
  "sum_range sh c lo hi = float_sum (numbers (map (\<lambda>r. sh (c, r)) [lo ..< Suc hi]))"

definition cell_value :: "sheet \<Rightarrow> char \<times> nat \<Rightarrow> pyfloat option" where
  "cell_value sh a =
     (case sh a of
        Some (Number v) \<Rightarrow> Some v
      | Some (Sum_formula c lo hi) \<Rightarrow> Some (sum_range sh c lo hi)
      | _ \<Rightarrow> None)"

text \<open>The balances that are present, in order.\<close>

fun present :: "'a option list \<Rightarrow> 'a list" where
  "present [] = []"
| "present (None # xs) = present xs"
| "present (Some x # xs) = x # present xs"

text \<open>The cell that the loop writes in column \<open>c\<close> for a row of the month.\<close>

definition row_cell :: "char \<Rightarrow> statement_row \<Rightarrow> cell" where
  "row_cell c bank_data =
     (if c = CHR ''A'' then Text (bank bank_data)
      else if c = CHR ''B'' then balance_cell (closing_balance bank_data)
      else if c = CHR ''C'' then Number (total_credits bank_data)
      else if c = CHR ''D'' then Number (total_debits bank_data)
      else Number (net_cash_flow bank_data))"

text \<open>The sheet that \<open>create_monthly_report\<close> builds from the rows of the month.\<close>

definition report_of :: "statement_row list \<Rightarrow> string \<Rightarrow> sheet" where
  "report_of month_data title =
     (let sh0 = Map.empty
                         ((CHR ''A'', 1) \<mapsto> Text title,
                          (CHR ''A'', 3) \<mapsto> Text ''Bank'',
                          (CHR ''B'', 3) \<mapsto> Text ''Closing Balance'',
                          (CHR ''C'', 3) \<mapsto> Text ''Total Credits'',
                          (CHR ''D'', 3) \<mapsto> Text ''Total Debits'',
                          (CHR ''E'', 3) \<mapsto> Text ''Net Cash Flow'');
          sh1 = fst (write_rows month_data 4 sh0);
          row = 4 + length month_data
      in sh1((CHR ''A'', row) \<mapsto> Text ''TOTAL'',
                          (CHR ''B'', row) \<mapsto> Sum_formula CHR ''B'' 4 (row - 1),
                          (CHR ''C'', row) \<mapsto> Sum_formula CHR ''C'' 4 (row - 1),
                          (CHR ''D'', row) \<mapsto> Sum_formula CHR ''D'' 4 (row - 1),
                          (CHR ''E'', row) \<mapsto> Sum_formula CHR ''E'' 4 (row - 1),
                          (CHR ''A'', row + 2) \<mapsto> Text ''Net Cash Flow by Bank''))"

text \<open>A statement with a bank, a date and totals, for the examples.\<close>

definition sample_statement :: "string \<Rightarrow> string \<Rightarrow> rat \<Rightarrow> rat \<Rightarrow> statement_data" where
  "sample_statement b d credits debits =
     \<lparr>bank = b, date = Some d, closing_balance = None, total_credits = Fin credits,
      total_debits = Fin debits, statement_period = None\<rparr>"

section \<open>The meaning of the expressions\<close>

text \<open>
  What an expression means, apart from the order in which the matcher tries things: the
  words that it matches, each with the groups captured on the way. The flag is that of
  \<open>cls_match\<close>.
\<close>

fun sem :: "bool \<Rightarrow> re \<Rightarrow> (string \<times> string list) set" where
  "sem ic (Atom k) = {([c], []) | c. cls_match ic k c}"
| "sem ic (Rep k lo hi greedy) =
     {(w, []) | w. list_all (cls_match ic k) w \<and> lo \<le> length w
        \<and> (case hi of None \<Rightarrow> True | Some h \<Rightarrow> length w \<le> h)}"
| "sem ic (Cat a b) = {(u @ v, g @ h) | u v g h. (u, g) \<in> sem ic a \<and> (v, h) \<in> sem ic b}"
| "sem ic (Alt a b) = sem ic a \<union> sem ic b"
| "sem ic (Grp a) = {(w, w # g) | w g. (w, g) \<in> sem ic a}"
| "sem ic Eps = {([], [])}"

text \<open>An expression without a capturing group.\<close>

fun plain :: "re \<Rightarrow> bool" where
  "plain (Grp a) = False"
| "plain (Cat a b) = (plain a \<and> plain b)"
| "plain (Alt a b) = (plain a \<and> plain b)"
| "plain r = True"

text \<open>The lists of groups that a match of an expression can capture.\<close>

fun caps :: "bool \<Rightarrow> re \<Rightarrow> string list set" where
  "caps ic (Cat a b) = {g @ h | g h. g \<in> caps ic a \<and> h \<in> caps ic b}"
| "caps ic (Alt a b) = caps ic a \<union> caps ic b"
| "caps ic (Grp a) = {w # g | w g. (w, g) \<in> sem ic a}"
| "caps ic r = {[]}"

text \<open>The words of \<open>\d{2}/\d{2}/\d{4}\<close>.\<close>

definition date_shaped :: "string \<Rightarrow> bool" where
  "date_shaped w \<longleftrightarrow>
     (\<exists>a b c. w = a @ ''/'' @ b @ ''/'' @ c \<and> list_all is_digit a \<and> list_all is_digit b
        \<and> list_all is_digit c \<and> length a = 2 \<and> length b = 2 \<and> length c = 4)"

text \<open>
  The shapes of the patterns of the source: group-free expressions and then the amount; a
  date or two dates between group-free expressions.
\<close>

definition amount_shape :: "re \<Rightarrow> bool" where
  "amount_shape p \<longleftrightarrow> (\<exists>rs. p = cats (rs @ [money_re]) \<and> list_all plain rs)"

definition two_date_shape :: "re \<Rightarrow> bool" where
  "two_date_shape p \<longleftrightarrow>
     (\<exists>rs ms. p = cats (rs @ date_re # ms @ [date_re]) \<and> list_all plain rs \<and> list_all plain ms)"

definition one_date_shape :: "re \<Rightarrow> bool" where
  "one_date_shape p \<longleftrightarrow> (\<exists>rs. p = cats (rs @ [date_re]) \<and> list_all plain rs)"

section \<open>The closing balance as a scan of the text\<close>









text \<open>
  The value of \<open>f\<close> at the first position of a text, from the left, where it has one.
\<close>

fun scan :: "(string \<Rightarrow> 'a option) \<Rightarrow> string \<Rightarrow> 'a option" where
  "scan f [] = f []"
| "scan f (c # cs) = (case f (c # cs) of Some a \<Rightarrow> Some a | None \<Rightarrow> scan f cs)"












section \<open>Properties of bank identification\<close>

lemma identifiers_hit_iff:
  "identifiers_hit ids subject sender \<longleftrightarrow>
     (\<exists>identifier \<in> set ids. contains identifier subject \<or> contains identifier sender)"
  by (induction ids) auto

lemma banks_loop_find:
  "banks_loop bs (lower subject) (lower sender) =
     map_option fst (find (bank_matches subject sender) bs)"
  by (induction bs) (auto simp: identifiers_hit_iff bank_matches_def)

lemma lower_append: "lower (u @ v) = lower u @ lower v"
  by (simp add: lower_def)

lemma contains_lower:
  assumes "contains w s" and "lower w = w"
  shows "contains w (lower s)"
proof -
  from assms(1) obtain u v where "s = u @ w @ v"
    unfolding contains_def sublist_def by blast
  then have "lower s = lower u @ w @ lower v"
    using assms(2) by (simp add: lower_append)
  then show ?thesis
    unfolding contains_def sublist_def by blast
qed

lemma contains_trans: "contains a b \<Longrightarrow> contains b c \<Longrightarrow> contains a c"
  unfolding contains_def by (rule sublist_order.order_trans)

text \<open>
  Claim C3. For every subject and sender, \<open>identify_bank\<close> returns the first bank in
  registration order one of whose identifiers occurs in the lower-cased subject or sender;
  when no bank matches it returns the sentinel \<open>unknown bank\<close> if the lower-cased subject
  contains \<open>statement\<close>, and nothing otherwise.
\<close>

theorem identify_bank_meets_spec:
  "identify_bank subject sender = identify_spec subject sender"
  unfolding identify_bank_def identify_spec_def Let_def banks_loop_find
  by (cases "find (bank_matches subject sender) banks") simp_all

theorem identify_bank_meets_spec_witness:
  "identify_spec ''Monthly Statement'' ''alerts@citi.com'' = Some ''citi''
   \<and> identify_spec ''Monthly Statement'' ''nobody@example.org'' = Some ''unknown bank''
   \<and> identify_spec ''Hello'' ''nobody@example.org'' = None"
proof -
  have "identify_bank ''Monthly Statement'' ''alerts@citi.com'' = Some ''citi''"
    by code_simp
  moreover have
    "identify_bank ''Monthly Statement'' ''nobody@example.org'' = Some ''unknown bank''"
    by code_simp
  moreover have "identify_bank ''Hello'' ''nobody@example.org'' = None"
    by code_simp
  ultimately show ?thesis
    unfolding identify_bank_meets_spec by simp
qed

text \<open>
  Claim C10. Identification is raw substring containment, so a subject that contains the
  word \<open>purchase\<close> contains the identifier \<open>chase\<close>: for every such subject and every
  sender the result is \<open>chase\<close>, the first bank of the registry.
\<close>

theorem purchase_is_chase:
  assumes "contains ''purchase'' subject"
  shows "identify_bank subject sender = Some ''chase''"
proof -
  have "lower ''purchase'' = ''purchase''"
    by code_simp
  with assms have "contains ''purchase'' (lower subject)"
    by (rule contains_lower)
  moreover have "contains ''chase'' ''purchase''"
    by code_simp
  ultimately have "contains ''chase'' (lower subject)"
    by (blast intro: contains_trans)
  then show ?thesis
    by (simp add: identify_bank_def banks_def)
qed

theorem purchase_is_chase_witness:
  "contains ''purchase'' ''Your purchase receipt''
   \<and> identify_bank ''Your purchase receipt'' ''shop@example.org'' = Some ''chase''"
proof -
  have h: "contains ''purchase'' ''Your purchase receipt''"
    by code_simp
  from h purchase_is_chase [OF h, of "''shop@example.org''"] show ?thesis
    by simp
qed

section \<open>Properties of the amount parser\<close>

lemmas float_defs =
  parse_amount_def parse_amount_try_def py_float_def replace_commas_def strip_def
  split_sign_def lower_def lower_char_def is_float_space_def parse_decimal_def
  parse_mantissa_def parse_exponent_def is_e_def is_digit_def digits_val_def digit_val_def

text \<open>
  Claim C6. For every input string \<open>parse_amount\<close> removes the commas and returns what
  \<open>float\<close> makes of the rest; when \<open>float\<close> rejects the rest it returns \<open>0.0\<close>, so that no
  exception reaches the caller. In particular \<open>1,234.56\<close> gives 1234.56 and \<open>garbage\<close>
  gives \<open>0.0\<close>.
\<close>

theorem parse_amount_contract:
  "(\<forall>v. py_float (replace_commas s) = Inr v \<longrightarrow> parse_amount s = v)
   \<and> (\<forall>e. py_float (replace_commas s) = Inl e \<longrightarrow> parse_amount s = Fin 0)
   \<and> parse_amount ''1,234.56'' = Fin (123456 / 100)
   \<and> parse_amount ''garbage'' = Fin 0"
proof -
  have "parse_amount ''1,234.56'' = Fin (123456 / 100)"
    by (simp add: float_defs)
  moreover have "parse_amount ''garbage'' = Fin 0"
    by (simp add: float_defs)
  ultimately show ?thesis
    by (simp add: parse_amount_def parse_amount_try_def)
qed

theorem parse_amount_contract_witness:
  "py_float (replace_commas ''2,500.75'') = Inr (Fin (250075 / 100))
   \<and> parse_amount ''2,500.75'' = Fin (250075 / 100)
   \<and> py_float (replace_commas ''12,x'') = Inl ValueError
   \<and> parse_amount ''12,x'' = Fin 0"
proof -
  have a: "py_float (replace_commas ''2,500.75'') = Inr (Fin (250075 / 100))"
    by (simp add: float_defs)
  have b: "py_float (replace_commas ''12,x'') = Inl ValueError"
    by (simp add: float_defs)
  from a b parse_amount_contract [of "''2,500.75''"] parse_amount_contract [of "''12,x''"]
  show ?thesis
    by simp
qed

section \<open>Properties of field extraction\<close>

lemmas step_defs =
  amount_step_def period_step_def generic_period_step_def two_dates_def one_date_def
  group_def year_month_def index_def set_closing_balance_def set_total_credits_def
  set_total_debits_def

text \<open>
  Claim C2, at the input where the code departs from it. On the text
  \<open>Statement Period: 01/01/2025 to 01/31/2025\<close> the rule sets of chase, bank of america and
  wells fargo leave both \<open>statement_period\<close> and \<open>date\<close> unset, because their bracket
  \<open>[to|-]\<close> stands for one character; the generic rule set, whose pattern has the
  alternation \<open>(?:through|to|-)\<close>, sets both as the claim says.
\<close>

theorem period_with_to_is_missed:
  "extract_chase_data ''Statement Period: 01/01/2025 to 01/31/2025'' (initial_data ''chase'')
     = (initial_data ''chase'', None)
   \<and> extract_bofa_data ''Statement Period: 01/01/2025 to 01/31/2025''
       (initial_data ''bank of america'') = (initial_data ''bank of america'', None)
   \<and> extract_wells_fargo_data ''Statement Period: 01/01/2025 to 01/31/2025''
       (initial_data ''wells fargo'') = (initial_data ''wells fargo'', None)
   \<and> extract_generic_bank_data ''Statement Period: 01/01/2025 to 01/31/2025''
       (initial_data ''unknown bank'')
     = ((initial_data ''unknown bank'')
          \<lparr>date := Some ''2025-01'',
           statement_period := Some ''01/01/2025 - 01/31/2025''\<rparr>, None)"
proof -
  let ?t = "''Statement Period: 01/01/2025 to 01/31/2025''"
  have bal: "search False ending_balance_re ?t = None"
    by code_simp
  have per: "search False period_class_re ?t = None"
    by code_simp
  have c1: "search False chase_deposits_re ?t = None"
    and c2: "search False chase_withdrawals_re ?t = None"
    by code_simp+
  have b1: "search True bofa_deposits_re ?t = None"
    and b2: "search True bofa_withdrawals_re ?t = None"
    by code_simp+
  have w1: "search False total_deposits_re ?t = None"
    and w2: "search False total_withdrawals_re ?t = None"
    by code_simp+
  have g1: "first_search balance_patterns ?t = None"
    and g3: "first_search credit_patterns ?t = None"
    and g4: "first_search debit_patterns ?t = None"
    by code_simp+
  have g2: "first_search period_patterns ?t = Some [''01/01/2025'', ''01/31/2025'']"
    by code_simp
  have "extract_chase_data ?t (initial_data ''chase'') = (initial_data ''chase'', None)"
    unfolding extract_chase_data_def bal per c1 c2 by (simp add: step_defs)
  moreover have "extract_bofa_data ?t (initial_data ''bank of america'')
      = (initial_data ''bank of america'', None)"
    unfolding extract_bofa_data_def bal per b1 b2 by (simp add: step_defs)
  moreover have "extract_wells_fargo_data ?t (initial_data ''wells fargo'')
      = (initial_data ''wells fargo'', None)"
    unfolding extract_wells_fargo_data_def bal per w1 w2 by (simp add: step_defs)
  moreover have "extract_generic_bank_data ?t (initial_data ''unknown bank'')
     = ((initial_data ''unknown bank'')
          \<lparr>date := Some ''2025-01'',
           statement_period := Some ''01/01/2025 - 01/31/2025''\<rparr>, None)"
    unfolding extract_generic_bank_data_def g1 g2 g3 g4 by (simp add: step_defs)
  ultimately show ?thesis
    by blast
qed

section \<open>Properties of the persisted dataset\<close>

lemmas frame_defs =
  write_to_excel_def build_frame_def sort_values_def read_excel_def numeric_date_def
  as_number_def frame_row_of_def sample_statement_def row_key_def date_key_def dup_key_def
  is_digit_def digits_val_def digit_val_def less_eq_char_def less_char_def Let_def

text \<open>
  When the file does not exist yet, the branch that creates it writes the sorted frame as
  it is: nothing is dropped.
\<close>

lemma first_write_keeps_frame:
  "write_to_excel to_month None data_list =
     (case build_frame to_month data_list of
        Inl e \<Rightarrow> Inl e
      | Inr frame \<Rightarrow> Inr (sort_values frame, sort_values frame))"
  by (simp add: write_to_excel_def Let_def split: sum.splits)

text \<open>
  Claim C1, at two inputs where the code departs from it. When the file does not exist,
  a batch with two records of one bank and date is written with both, because only the
  other branch drops duplicates. When the file holds a record whose date is all digits,
  the date is read back as an integer, so an incoming record of the same bank and date
  does not replace it: both stay.
\<close>

theorem merge_keeps_duplicates:
  "write_to_excel (\<lambda>d. Inr d) None
     [sample_statement ''chase'' ''2025-04'' 10 0, sample_statement ''chase'' ''2025-04'' 7 0]
   = Inr ([frame_row_of (sample_statement ''chase'' ''2025-04'' 10 0) (Some ''2025-04''),
           frame_row_of (sample_statement ''chase'' ''2025-04'' 7 0) (Some ''2025-04'')],
          [frame_row_of (sample_statement ''chase'' ''2025-04'' 10 0) (Some ''2025-04''),
           frame_row_of (sample_statement ''chase'' ''2025-04'' 7 0) (Some ''2025-04'')])
   \<and> write_to_excel (\<lambda>d. Inr d)
       (Some [frame_row_of (sample_statement ''chase'' ''20250131'' 10 0) (Some ''20250131'')])
       [sample_statement ''chase'' ''20250131'' 7 0]
   = Inr ([(frame_row_of (sample_statement ''chase'' ''20250131'' 10 0) (Some ''20250131''))
             \<lparr>date_col := Num 20250131\<rparr>,
           frame_row_of (sample_statement ''chase'' ''20250131'' 7 0) (Some ''20250131'')],
          [frame_row_of (sample_statement ''chase'' ''20250131'' 7 0) (Some ''20250131'')])"
  by (simp add: frame_defs)

text \<open>
  Claim C9, at two inputs where the code departs from it. From the state without a file,
  writing a batch with two records of one bank and date leaves two rows and writing it
  again leaves one. From a file with a record whose date is all digits, writing a batch
  with a record of the same bank and date leaves the old and the new row, and writing it
  again changes the old row's figures.
\<close>

theorem repeated_write_changes_file:
  "write_to_excel (\<lambda>d. Inr d) None
     [sample_statement ''chase'' ''2025-04'' 10 0, sample_statement ''chase'' ''2025-04'' 7 0]
   = Inr ([frame_row_of (sample_statement ''chase'' ''2025-04'' 10 0) (Some ''2025-04''),
           frame_row_of (sample_statement ''chase'' ''2025-04'' 7 0) (Some ''2025-04'')],
          [frame_row_of (sample_statement ''chase'' ''2025-04'' 10 0) (Some ''2025-04''),
           frame_row_of (sample_statement ''chase'' ''2025-04'' 7 0) (Some ''2025-04'')])
   \<and> write_to_excel (\<lambda>d. Inr d)
       (Some [frame_row_of (sample_statement ''chase'' ''2025-04'' 10 0) (Some ''2025-04''),
              frame_row_of (sample_statement ''chase'' ''2025-04'' 7 0) (Some ''2025-04'')])
       [sample_statement ''chase'' ''2025-04'' 10 0, sample_statement ''chase'' ''2025-04'' 7 0]
   = Inr ([frame_row_of (sample_statement ''chase'' ''2025-04'' 7 0) (Some ''2025-04'')],
          [frame_row_of (sample_statement ''chase'' ''2025-04'' 10 0) (Some ''2025-04''),
           frame_row_of (sample_statement ''chase'' ''2025-04'' 7 0) (Some ''2025-04'')])
   \<and> write_to_excel (\<lambda>d. Inr d)
       (Some [(frame_row_of (sample_statement ''chase'' ''20250131'' 10 0) (Some ''20250131''))
                \<lparr>date_col := Num 20250131\<rparr>,
              frame_row_of (sample_statement ''chase'' ''20250131'' 7 0) (Some ''20250131'')])
       [sample_statement ''chase'' ''20250131'' 7 0]
   = Inr ([(frame_row_of (sample_statement ''chase'' ''20250131'' 7 0) (Some ''20250131''))
             \<lparr>date_col := Num 20250131\<rparr>,
           frame_row_of (sample_statement ''chase'' ''20250131'' 7 0) (Some ''20250131'')],
          [frame_row_of (sample_statement ''chase'' ''20250131'' 7 0) (Some ''20250131'')])"
  by (simp add: frame_defs)

section \<open>Properties of the monthly report\<close>

lemma write_rows_snd: "snd (write_rows rows row sh) = row + length rows"
  by (induction rows arbitrary: row sh) simp_all

lemma write_rows_cells:
  "fst (write_rows rows row sh) (c, r) =
     (if row \<le> r \<and> r < row + length rows \<and> c \<in> set ''ABCDE''
      then Some (row_cell c (rows ! (r - row))) else sh (c, r))"
proof (induction rows arbitrary: row sh c r)
  case Nil
  show ?case by auto
next
  case (Cons bank_data rest)
  show ?case
  proof (cases "r = row")
    case True
    then show ?thesis
      by (simp add: Cons row_cell_def)
  next
    case False
    then show ?thesis
      by (auto simp: Cons nth_Cons')
  qed
qed

lemma numbers_Number: "numbers (map (\<lambda>x. Some (Number (f x))) xs) = map f xs"
  by (induction xs) simp_all

lemma numbers_balance:
  "numbers (map (\<lambda>x. Some (balance_cell (f x))) xs) = present (map f xs)"
proof (induction xs)
  case Nil
  show ?case by simp
next
  case (Cons x xs)
  then show ?case
    by (cases "f x") (simp_all add: balance_cell_def)
qed

lemma range_rows:
  assumes "\<And>i. i < n \<Longrightarrow> sh (c, 4 + i) = Some (g (rows ! i))" and "n = length rows"
  shows "map (\<lambda>r. sh (c, r)) [4 ..< 4 + n] = map (\<lambda>x. Some (g x)) rows"
proof -
  have "[4 ..< 4 + n] = map (\<lambda>i. i + 4) [0 ..< n]"
    by (simp add: map_add_upt add.commute)
  then have "map (\<lambda>r. sh (c, r)) [4 ..< 4 + n] = map (\<lambda>i. sh (c, 4 + i)) [0 ..< n]"
    by (simp add: comp_def add.commute)
  also have "\<dots> = map (\<lambda>i. Some (g (rows ! i))) [0 ..< n]"
    using assms(1) by simp
  also have "\<dots> = map (\<lambda>x. Some (g x)) rows"
    unfolding assms(2) by (rule nth_equalityI) simp_all
  finally show ?thesis .
qed

lemma create_monthly_report_eq:
  assumes "filter (\<lambda>r. date r = Some period) df \<noteq> []"
  shows "create_monthly_report (Some df) period title
      = Some (report_of (filter (\<lambda>r. date r = Some period) df) title)"
proof -
  from assms have "df \<noteq> []"
    by auto
  with assms show ?thesis
    by (simp add: create_monthly_report_def report_of_def Let_def split_beta write_rows_snd)
qed

lemma report_rows:
  assumes "i < length month_data" and "c \<in> set ''ABCDE''"
  shows "report_of month_data title (c, 4 + i) = Some (row_cell c (month_data ! i))"
  using assms by (simp add: report_of_def Let_def write_rows_cells)

lemma report_total_row:
  "report_of month_data title (CHR ''A'', 4 + length month_data) = Some (Text ''TOTAL'')"
  "c \<in> set ''BCDE'' \<Longrightarrow>
     report_of month_data title (c, 4 + length month_data)
       = Some (Sum_formula c 4 (4 + length month_data - 1))"
  by (auto simp: report_of_def Let_def)

lemma report_sum:
  assumes "c \<in> set ''BCDE''"
  shows "cell_value (report_of month_data title) (c, 4 + length month_data)
     = Some (float_sum (numbers (map (\<lambda>x. Some (row_cell c x)) month_data)))"
proof -
  have h: "map (\<lambda>r. report_of month_data title (c, r)) [4 ..< 4 + length month_data]
      = map (\<lambda>x. Some (row_cell c x)) month_data"
    using assms by (intro range_rows report_rows) auto
  have e: "Suc (4 + length month_data - 1) = 4 + length month_data"
    by simp
  show ?thesis
    by (simp only: cell_value_def report_total_row(2) [OF assms] sum_range_def e h
          option.case cell.case)
qed

lemma foldl_fadd_Fin: "foldl fadd (Fin a) (map Fin qs) = Fin (a + sum_list qs)"
  by (induction qs arbitrary: a) (simp_all add: add.assoc)

lemma float_sum_Fin: "float_sum (map Fin qs) = Fin (sum_list qs)"
  by (simp add: float_sum_def foldl_fadd_Fin)

text \<open>
  Claim C8. When the dataset has rows of the period, the report has these rows from row 4
  on, in their order in the dataset, and after them the row whose first cell is \<open>TOTAL\<close>
  and whose other cells are sums over exactly the rows of the month: each shows the sum of
  its column, which for finite values is the arithmetic sum.
\<close>

theorem monthly_report_totals:
  assumes "month_data = filter (\<lambda>r. date r = Some period) df" and "month_data \<noteq> []"
  shows "\<exists>sh. create_monthly_report (Some df) period title = Some sh
     \<and> (\<forall>i < length month_data.
          sh (CHR ''A'', 4 + i) = Some (Text (bank (month_data ! i)))
        \<and> sh (CHR ''B'', 4 + i) = Some (balance_cell (closing_balance (month_data ! i)))
        \<and> sh (CHR ''C'', 4 + i) = Some (Number (total_credits (month_data ! i)))
        \<and> sh (CHR ''D'', 4 + i) = Some (Number (total_debits (month_data ! i)))
        \<and> sh (CHR ''E'', 4 + i) = Some (Number (net_cash_flow (month_data ! i))))
     \<and> sh (CHR ''A'', 4 + length month_data) = Some (Text ''TOTAL'')
     \<and> cell_value sh (CHR ''B'', 4 + length month_data)
         = Some (float_sum (present (map closing_balance month_data)))
     \<and> cell_value sh (CHR ''C'', 4 + length month_data)
         = Some (float_sum (map total_credits month_data))
     \<and> cell_value sh (CHR ''D'', 4 + length month_data)
         = Some (float_sum (map total_debits month_data))
     \<and> cell_value sh (CHR ''E'', 4 + length month_data)
         = Some (float_sum (map net_cash_flow month_data))
     \<and> (\<forall>qs. float_sum (map Fin qs) = Fin (sum_list qs))"
proof -
  let ?sh = "report_of month_data title"
  have "create_monthly_report (Some df) period title = Some ?sh"
    using assms create_monthly_report_eq [of period df title] by simp
  moreover have "\<forall>i < length month_data.
          ?sh (CHR ''A'', 4 + i) = Some (Text (bank (month_data ! i)))
        \<and> ?sh (CHR ''B'', 4 + i) = Some (balance_cell (closing_balance (month_data ! i)))
        \<and> ?sh (CHR ''C'', 4 + i) = Some (Number (total_credits (month_data ! i)))
        \<and> ?sh (CHR ''D'', 4 + i) = Some (Number (total_debits (month_data ! i)))
        \<and> ?sh (CHR ''E'', 4 + i) = Some (Number (net_cash_flow (month_data ! i)))"
    by (simp add: report_rows row_cell_def)
  moreover have "?sh (CHR ''A'', 4 + length month_data) = Some (Text ''TOTAL'')"
    by (rule report_total_row)
  moreover have "cell_value ?sh (CHR ''B'', 4 + length month_data)
         = Some (float_sum (present (map closing_balance month_data)))"
    by (simp add: report_sum row_cell_def numbers_balance)
  moreover have "cell_value ?sh (CHR ''C'', 4 + length month_data)
         = Some (float_sum (map total_credits month_data))"
    by (simp add: report_sum row_cell_def numbers_Number)
  moreover have "cell_value ?sh (CHR ''D'', 4 + length month_data)
         = Some (float_sum (map total_debits month_data))"
    by (simp add: report_sum row_cell_def numbers_Number)
  moreover have "cell_value ?sh (CHR ''E'', 4 + length month_data)
         = Some (float_sum (map net_cash_flow month_data))"
    by (simp add: report_sum row_cell_def numbers_Number)
  ultimately show ?thesis
    using float_sum_Fin by blast
qed

lemma sample_month:
  "filter (\<lambda>r. date r = Some ''2025-04'')
     [row_of (sample_statement ''chase'' ''2025-03'' 7 1) None,
      row_of (sample_statement ''chase'' ''2025-04'' 100 20) None,
      row_of (sample_statement ''citi'' ''2025-04'' 50 10) None]
   = [row_of (sample_statement ''chase'' ''2025-04'' 100 20) None,
      row_of (sample_statement ''citi'' ''2025-04'' 50 10) None]"
  by (simp add: row_of_def sample_statement_def)

theorem monthly_report_totals_witness:
  "\<exists>sh. create_monthly_report
          (Some [row_of (sample_statement ''chase'' ''2025-03'' 7 1) None,
                 row_of (sample_statement ''chase'' ''2025-04'' 100 20) None,
                 row_of (sample_statement ''citi'' ''2025-04'' 50 10) None])
          ''2025-04'' ''Monthly Financial Report - April 2025'' = Some sh
     \<and> sh (CHR ''A'', 4) = Some (Text ''chase'')
     \<and> sh (CHR ''A'', 5) = Some (Text ''citi'')
     \<and> sh (CHR ''A'', 6) = Some (Text ''TOTAL'')
     \<and> cell_value sh (CHR ''C'', 6) = Some (Fin 150)
     \<and> cell_value sh (CHR ''D'', 6) = Some (Fin 30)
     \<and> cell_value sh (CHR ''E'', 6) = Some (Fin 120)"
proof -
  let ?md = "[row_of (sample_statement ''chase'' ''2025-04'' 100 20) None,
      row_of (sample_statement ''citi'' ''2025-04'' 50 10) None]"
  have ne: "?md \<noteq> []"
    by simp
  from monthly_report_totals [OF sample_month [symmetric] ne,
      of "''Monthly Financial Report - April 2025''"]
  obtain sh where sh: "create_monthly_report
          (Some [row_of (sample_statement ''chase'' ''2025-03'' 7 1) None,
                 row_of (sample_statement ''chase'' ''2025-04'' 100 20) None,
                 row_of (sample_statement ''citi'' ''2025-04'' 50 10) None])
          ''2025-04'' ''Monthly Financial Report - April 2025'' = Some sh"
    and rows: "\<forall>i < length ?md. sh (CHR ''A'', 4 + i) = Some (Text (bank (?md ! i)))"
    and total: "sh (CHR ''A'', 4 + length ?md) = Some (Text ''TOTAL'')"
    and c: "cell_value sh (CHR ''C'', 4 + length ?md) = Some (float_sum (map total_credits ?md))"
    and d: "cell_value sh (CHR ''D'', 4 + length ?md) = Some (float_sum (map total_debits ?md))"
    and e: "cell_value sh (CHR ''E'', 4 + length ?md) = Some (float_sum (map net_cash_flow ?md))"
    by blast
  from rows [rule_format, of 0] rows [rule_format, of 1] have "sh (CHR ''A'', 4) = Some (Text ''chase'')" "sh (CHR ''A'', 5) = Some (Text ''citi'')"
    by (simp_all add: row_of_def sample_statement_def)
  moreover from total have "sh (CHR ''A'', 6) = Some (Text ''TOTAL'')"
    by simp
  moreover from c d e have "cell_value sh (CHR ''C'', 6) = Some (Fin 150)"
    "cell_value sh (CHR ''D'', 6) = Some (Fin 30)"
    "cell_value sh (CHR ''E'', 6) = Some (Fin 120)"
    by (simp_all add: float_sum_def row_of_def sample_statement_def)
  ultimately show ?thesis
    using sh by blast
qed

section \<open>Soundness of the matcher and exceptions in extraction\<close>

lemma takeWhile_run:
  assumes "n \<le> length (takeWhile P s)"
  shows "list_all P (take n s)" and "n \<le> length s"
proof -
  have "take n s = take n (takeWhile P s)"
    using assms by (metis takeWhile_dropWhile_id take_append diff_is_0_eq' take_0
        append.right_neutral)
  then show "list_all P (take n s)"
    by (metis in_set_takeD list_all_iff set_takeWhileD)
  show "n \<le> length s"
    using assms length_takeWhile_le [of P s] by linarith
qed

lemma match_sound:
  "(g, s') \<in> set (match ic r s) \<Longrightarrow> \<exists>w. s = w @ s' \<and> (w, g) \<in> sem ic r"
proof (induction r arbitrary: g s s')
  case (Atom k)
  then show ?case
    by (cases s) (auto split: if_splits)
next
  case (Rep k lo hi greedy)
  define run where "run = length (takeWhile (cls_match ic k) s)"
  define top where "top = (case hi of None \<Rightarrow> run | Some h \<Rightarrow> min h run)"
  have "set (match ic (Rep k lo hi greedy) s) = (\<lambda>n. ([], drop n s)) ` set [lo ..< Suc top]"
    unfolding match.simps Let_def run_def top_def
    by (cases greedy) (simp_all only: if_True if_False set_map set_rev)
  with Rep.prems have "(g, s') \<in> (\<lambda>n. ([], drop n s)) ` {lo ..< Suc top}"
    by (simp only: set_upt)
  then obtain n where n: "lo \<le> n" "n \<le> top" "g = []" "s' = drop n s"
    by auto
  have "n \<le> run"
    using n(2) by (auto simp: top_def split: option.splits)
  then have "list_all (cls_match ic k) (take n s)" "n \<le> length s"
    unfolding run_def by (rule takeWhile_run)+
  moreover have "case hi of None \<Rightarrow> True | Some h \<Rightarrow> length (take n s) \<le> h"
    using n(2) by (auto simp: top_def split: option.splits)
  ultimately have "(take n s, []) \<in> sem ic (Rep k lo hi greedy)"
    using n(1) by simp
  then show ?case
    using n by (intro exI [of _ "take n s"]) simp
next
  case (Cat a b)
  from Cat.prems obtain g1 s1 g2 where a: "(g1, s1) \<in> set (match ic a s)"
    and b: "(g2, s') \<in> set (match ic b s1)" and g: "g = g1 @ g2"
    by auto
  from Cat.IH(1) [OF a] obtain u where u: "s = u @ s1" "(u, g1) \<in> sem ic a"
    by blast
  from Cat.IH(2) [OF b] obtain v where v: "s1 = v @ s'" "(v, g2) \<in> sem ic b"
    by blast
  from u v g show ?case
    by (intro exI [of _ "u @ v"]) auto
next
  case (Alt a b)
  from Alt.prems have "(g, s') \<in> set (match ic a s) \<or> (g, s') \<in> set (match ic b s)"
    by simp
  then show ?case
    using Alt.IH by fastforce
next
  case (Grp a)
  from Grp.prems obtain g0 where a: "(g0, s') \<in> set (match ic a s)"
    and g: "g = take (length s - length s') s # g0"
    by auto
  from Grp.IH [OF a] obtain w where "s = w @ s'" "(w, g0) \<in> sem ic a"
    by blast
  with g show ?case
    by (intro exI [of _ w]) auto
next
  case Eps
  then show ?case
    by simp
qed

lemma match_head_sound:
  assumes "match ic r s = (g, s') # ms"
  shows "\<exists>w. (w, g) \<in> sem ic r"
proof -
  from assms have "(g, s') \<in> set (match ic r s)"
    by simp
  then show ?thesis
    by (blast dest: match_sound)
qed

lemma search_sound:
  "search ic r s = Some g \<Longrightarrow> \<exists>w. (w, g) \<in> sem ic r"
proof (induction s)
  case Nil
  then show ?case
    by (auto split: list.splits dest: match_head_sound)
next
  case (Cons c cs)
  then show ?case
    by (auto split: list.splits dest: match_head_sound)
qed

lemma sem_caps: "(w, g) \<in> sem ic r \<Longrightarrow> g \<in> caps ic r"
  by (induction r arbitrary: w g) (auto, blast)

lemma caps_plain: "plain r \<Longrightarrow> caps ic r = {[]}"
  by (induction r) auto

lemma plain_lit: "plain (lit w)"
  by (induction w) (simp_all add: lit_def)

lemma plain_basic:
  "plain (one_of cs)" "plain (opt k)" "plain spaces" "plain lazy_any" "plain (digits n)"
  "plain range_word_re"
  by (simp_all add: one_of_def opt_def spaces_def lazy_any_def digits_def range_word_re_def
      plain_lit)

lemma caps_Cat_plain: "plain a \<Longrightarrow> caps ic (Cat a b) = caps ic b"
  by (simp add: caps_plain)

lemma caps_Cat_plain_right: "plain b \<Longrightarrow> caps ic (Cat a b) = caps ic a"
  by (simp add: caps_plain)

lemma search_caps: "search ic r s = Some g \<Longrightarrow> g \<in> caps ic r"
  by (blast dest: search_sound sem_caps)

lemma cls_match_False: "cls_match False k = in_cls k"
  by (rule ext) (simp add: cls_match_def)

lemma in_cls_Digit: "in_cls Digit = is_digit"
  by (rule ext) simp

lemma sem_digits:
  "(w, g) \<in> sem False (digits n) \<longleftrightarrow> g = [] \<and> list_all is_digit w \<and> length w = n"
  by (auto simp: digits_def cls_match_False in_cls_Digit)

lemma sem_one_of:
  "(w, g) \<in> sem False (one_of cs) \<longleftrightarrow> g = [] \<and> (\<exists>c \<in> set cs. w = [c])"
  by (auto simp: one_of_def cls_match_False)

lemma sem_Cat_iff:
  "(w, g) \<in> sem ic (Cat a b) \<longleftrightarrow>
     (\<exists>u v g1 g2. w = u @ v \<and> g = g1 @ g2 \<and> (u, g1) \<in> sem ic a \<and> (v, g2) \<in> sem ic b)"
  by auto

lemma sem_Eps_iff: "(w, g) \<in> sem ic Eps \<longleftrightarrow> w = [] \<and> g = []"
  by simp

lemma date_sem:
  assumes "(w, g) \<in> sem False (cats [digits 2, one_of ''/'', digits 2, one_of ''/'', digits 4])"
  shows "g = [] \<and> date_shaped w"
proof -
  from assms obtain a b c where "w = a @ ''/'' @ b @ ''/'' @ c" "g = []"
    "list_all is_digit a" "length a = 2" "list_all is_digit b" "length b = 2"
    "list_all is_digit c" "length c = 4"
    unfolding cats_def foldr.simps comp_def sem_Cat_iff sem_digits sem_one_of sem_Eps_iff
    by auto
  then show ?thesis
    unfolding date_shaped_def by blast
qed

lemma caps_date_re: "g \<in> caps False date_re \<Longrightarrow> \<exists>d. g = [d] \<and> date_shaped d"
  unfolding date_re_def by (auto dest: date_sem)

lemma caps_money_re: "g \<in> caps ic money_re \<Longrightarrow> \<exists>a. g = [a]"
proof -
  assume "g \<in> caps ic money_re"
  then obtain w h where "g = w # h"
    "(w, h) \<in> sem ic (cats [Rep (Union Digit (Chars '','')) 1 None True, one_of ''.'', digits 2])"
    unfolding money_re_def by (auto simp: opt_def)
  moreover have "plain (cats [Rep (Union Digit (Chars '','')) 1 None True, one_of ''.'', digits 2])"
    by (simp add: cats_def plain_basic)
  ultimately show ?thesis
    using sem_caps caps_plain by blast
qed

lemma plain_cats: "list_all plain rs \<Longrightarrow> plain (cats rs)"
  by (induction rs) (simp_all add: cats_def)

lemma caps_cats_plain:
  "list_all plain rs \<Longrightarrow> caps ic (cats (rs @ rest)) = caps ic (cats rest)"
  by (induction rs) (simp_all add: cats_def caps_plain)

lemma caps_cats_last: "caps ic (cats [r]) = caps ic r"
  by (simp add: cats_def)

lemma caps_cats_Cons:
  "g \<in> caps ic (cats (r # rs)) \<Longrightarrow> \<exists>g1 g2. g = g1 @ g2 \<and> g1 \<in> caps ic r \<and> g2 \<in> caps ic (cats rs)"
  by (simp add: cats_def)

lemma amount_shapeI:
  "rs \<noteq> [] \<Longrightarrow> last rs = money_re \<Longrightarrow> list_all plain (butlast rs) \<Longrightarrow> amount_shape (cats rs)"
  unfolding amount_shape_def by (metis append_butlast_last_id)

lemma amount_caps:
  assumes "amount_shape p" and "g \<in> caps ic p"
  shows "\<exists>a. g = [a]"
proof -
  from assms(1) obtain rs where "p = cats (rs @ [money_re])" "list_all plain rs"
    unfolding amount_shape_def by blast
  with assms(2) have "g \<in> caps ic money_re"
    by (simp add: caps_cats_plain caps_cats_last)
  then show ?thesis
    by (rule caps_money_re)
qed

lemma two_date_caps:
  assumes "two_date_shape p" and "g \<in> caps False p"
  shows "\<exists>d1 d2. g = [d1, d2] \<and> date_shaped d1 \<and> date_shaped d2"
proof -
  from assms(1) obtain rs ms where p: "p = cats (rs @ date_re # ms @ [date_re])"
    and pl: "list_all plain rs" "list_all plain ms"
    unfolding two_date_shape_def by blast
  from assms(2) have "g \<in> caps False (cats (date_re # ms @ [date_re]))"
    unfolding p by (simp add: caps_cats_plain pl)
  then obtain g1 g2 where g: "g = g1 @ g2" "g1 \<in> caps False date_re"
    "g2 \<in> caps False (cats (ms @ [date_re]))"
    by (blast dest: caps_cats_Cons)
  from g(3) have "g2 \<in> caps False date_re"
    by (simp add: caps_cats_plain pl caps_cats_last)
  with g(1,2) show ?thesis
    by (auto dest!: caps_date_re)
qed

lemma one_date_caps:
  assumes "one_date_shape p" and "g \<in> caps False p"
  shows "\<exists>d. g = [d] \<and> date_shaped d"
proof -
  from assms(1) obtain rs where "p = cats (rs @ [date_re])" "list_all plain rs"
    unfolding one_date_shape_def by blast
  with assms(2) have "g \<in> caps False date_re"
    by (simp add: caps_cats_plain caps_cats_last)
  then show ?thesis
    by (rule caps_date_re)
qed

lemmas plain_facts = plain_basic plain_lit plain_cats

lemma amount_shapes:
  "amount_shape ending_balance_re" "amount_shape chase_deposits_re"
  "amount_shape chase_withdrawals_re" "amount_shape bofa_deposits_re"
  "amount_shape bofa_withdrawals_re" "amount_shape total_deposits_re"
  "amount_shape total_withdrawals_re" "amount_shape total_credits_re"
  "amount_shape total_debits_re" "amount_shape citi_balance_re"
  "amount_shape balance_colon_re" "amount_shape closing_balance_re"
  "amount_shape total_balance_re" "amount_shape deposits_sum_re"
  "amount_shape withdrawals_sum_re"
  unfolding ending_balance_re_def chase_deposits_re_def chase_withdrawals_re_def
    bofa_deposits_re_def bofa_withdrawals_re_def total_deposits_re_def
    total_withdrawals_re_def total_credits_re_def total_debits_re_def citi_balance_re_def
    balance_colon_re_def closing_balance_re_def total_balance_re_def deposits_sum_re_def
    withdrawals_sum_re_def
  by (rule amount_shapeI; simp add: plain_facts)+

lemma two_date_shapeI:
  "p = cats (rs @ date_re # ms @ [date_re]) \<Longrightarrow> list_all plain rs \<Longrightarrow> list_all plain ms
     \<Longrightarrow> two_date_shape p"
  unfolding two_date_shape_def by blast

lemma two_date_shapes:
  "two_date_shape period_class_re" "two_date_shape period_words_re"
  "two_date_shape period_dash_re" "two_date_shape bare_period_re"
proof -
  show "two_date_shape period_class_re"
    by (rule two_date_shapeI [of _ "[period_label_re]" "[spaces, one_of ''to|-'', spaces]"])
      (simp_all add: period_class_re_def period_label_re_def plain_facts)
  show "two_date_shape period_words_re"
    by (rule two_date_shapeI [of _ "[period_label_re]" "[spaces, range_word_re, spaces]"])
      (simp_all add: period_words_re_def period_label_re_def plain_facts)
  show "two_date_shape period_dash_re"
    by (rule two_date_shapeI [of _ "[period_label_re]" "[spaces, lit ''-'', spaces]"])
      (simp_all add: period_dash_re_def period_label_re_def plain_facts)
  show "two_date_shape bare_period_re"
    by (rule two_date_shapeI
        [of _ "[one_of ''Pp'', lit ''eriod'', opt (Chars '':''), spaces]"
           "[spaces, range_word_re, spaces]"])
      (simp_all add: bare_period_re_def plain_facts)
qed

lemma one_date_shapes: "one_date_shape statement_date_re"
  unfolding one_date_shape_def statement_date_re_def
  by (rule exI [of _ "[one_of ''Ss'', lit ''tatement '', one_of ''Dd'', lit ''ate'',
        opt (Chars '':''), spaces]"]) (simp add: plain_facts)

lemma split_on_no_sep: "sep \<notin> set w \<Longrightarrow> split_on sep w = [w]"
  by (induction w) auto

lemma split_on_append:
  "sep \<notin> set a \<Longrightarrow> split_on sep (a @ sep # rest) = a # split_on sep rest"
  by (induction a) auto

lemma digits_no_slash: "list_all is_digit a \<Longrightarrow> CHR ''/'' \<notin> set a"
  by (auto simp: list_all_iff is_digit_def)

lemma year_month_date:
  assumes "date_shaped w"
  shows "\<exists>a c. length a = 2 \<and> length c = 4 \<and> year_month (split_on CHR ''/'' w) = Inr (c @ ''-'' @ a)"
proof -
  from assms obtain a b c where w: "w = a @ ''/'' @ b @ ''/'' @ c"
    and d: "list_all is_digit a" "list_all is_digit b" "list_all is_digit c"
    and l: "length a = 2" "length c = 4"
    unfolding date_shaped_def by blast
  have "split_on CHR ''/'' w = [a, b, c]"
    unfolding w using d
    by (simp add: split_on_append split_on_no_sep digits_no_slash)
  then have "year_month (split_on CHR ''/'' w) = Inr (c @ ''-'' @ a)"
    by (simp add: year_month_def index_def)
  with l show ?thesis
    by blast
qed

lemma snd_and_then:
  "snd o1 = None \<Longrightarrow> (\<And>d. snd (f d) = None) \<Longrightarrow> snd (and_then o1 f) = None"
  by (cases o1) simp

lemma amount_step_ok:
  assumes "found = None \<or> (\<exists>a. found = Some [a])"
  shows "snd (amount_step found assign data) = None"
  using assms by (auto simp: amount_step_def group_def)

lemma search_amount:
  "amount_shape p \<Longrightarrow> search ic p text = None \<or> (\<exists>a. search ic p text = Some [a])"
  by (cases "search ic p text") (auto dest: search_caps amount_caps)

lemma first_search_amount:
  "list_all amount_shape ps \<Longrightarrow>
     first_search ps text = None \<or> (\<exists>a. first_search ps text = Some [a])"
proof (induction ps)
  case Nil
  show ?case by simp
next
  case (Cons p ps)
  then show ?case
    using search_amount [of p False "text"] by (auto split: option.splits)
qed

lemma two_dates_ok:
  assumes "date_shaped d1" and "date_shaped d2"
  shows "snd (two_dates [d1, d2] data) = None"
  using year_month_date [OF assms(2)]
  by (auto simp: two_dates_def group_def Let_def)

lemma one_date_ok:
  assumes "date_shaped d1"
  shows "snd (one_date [d1] data) = None"
  using year_month_date [OF assms]
  by (auto simp: one_date_def group_def Let_def)

lemma period_step_ok:
  assumes "two_date_shape p"
  shows "snd (period_step (search False p text) data) = None"
proof (cases "search False p text")
  case None
  then show ?thesis by (simp add: period_step_def)
next
  case (Some gs)
  then obtain d1 d2 where "gs = [d1, d2]" "date_shaped d1" "date_shaped d2"
    using assms by (blast dest: search_caps two_date_caps)
  with Some show ?thesis
    by (simp add: period_step_def two_dates_ok)
qed

lemma first_search_period:
  assumes "first_search period_patterns text = Some gs"
  shows "(\<exists>d1 d2. gs = [d1, d2] \<and> date_shaped d1 \<and> date_shaped d2)
       \<or> (\<exists>d. gs = [d] \<and> date_shaped d)"
  using assms
  by (auto simp: period_patterns_def split: option.splits
      dest!: search_caps dest: two_date_caps [OF two_date_shapes(2)]
        two_date_caps [OF two_date_shapes(4)] one_date_caps [OF one_date_shapes])

lemma generic_period_step_ok:
  "snd (generic_period_step (first_search period_patterns text) data) = None"
proof (cases "first_search period_patterns text")
  case None
  then show ?thesis by (simp add: generic_period_step_def)
next
  case (Some gs)
  from first_search_period [OF this] Some show ?thesis
    by (auto simp: generic_period_step_def two_dates_ok one_date_ok)
qed

lemma extract_ok:
  "snd (extract_chase_data text data) = None"
  "snd (extract_bofa_data text data) = None"
  "snd (extract_wells_fargo_data text data) = None"
  "snd (extract_citi_data text data) = None"
  "snd (extract_capital_one_data text data) = None"
  unfolding extract_chase_data_def extract_bofa_data_def extract_wells_fargo_data_def
    extract_citi_data_def extract_capital_one_data_def
  by (intro snd_and_then amount_step_ok search_amount period_step_ok amount_shapes
      two_date_shapes)+

lemma extract_generic_ok: "snd (extract_generic_bank_data text data) = None"
  unfolding extract_generic_bank_data_def
  by (intro snd_and_then amount_step_ok first_search_amount generic_period_step_ok)
    (simp_all add: balance_patterns_def credit_patterns_def debit_patterns_def amount_shapes)

lemma dispatch_ok: "snd (dispatch bank_name text data) = None"
  by (simp add: dispatch_def Let_def extract_ok extract_generic_ok)

lemma sem_Rep_iff:
  "(w, g) \<in> sem False (Rep k lo hi greedy) \<longleftrightarrow>
     g = [] \<and> list_all (in_cls k) w \<and> lo \<le> length w
       \<and> (case hi of None \<Rightarrow> True | Some h \<Rightarrow> length w \<le> h)"
  by (auto simp: cls_match_False)

lemma filter_digits_all: "list_all is_digit a \<Longrightarrow> filter is_digit a = a"
  by (induction a) simp_all

lemma filter_digits_sep: "list_all (in_cls (Chars ''-_'')) s \<Longrightarrow> filter is_digit s = []"
  by (induction s) (auto simp: is_digit_def)

lemma filename_date_sem:
  assumes "(w, g) \<in> sem False (cats [Rep Digit 2 (Some 4) True, opt (Chars ''-_''), digits 2,
      opt (Chars ''-_''), Rep Digit 2 (Some 4) True])"
  shows "g = [] \<and> 6 \<le> length (filter is_digit w) \<and> length (filter is_digit w) \<le> 10"
proof -
  from assms obtain a s1 b s2 c where w: "w = a @ s1 @ b @ s2 @ c" and g: "g = []"
    and a: "list_all is_digit a" "2 \<le> length a" "length a \<le> 4"
    and s: "list_all (in_cls (Chars ''-_'')) s1" "list_all (in_cls (Chars ''-_'')) s2"
    and b: "list_all is_digit b" "length b = 2"
    and c: "list_all is_digit c" "2 \<le> length c" "length c \<le> 4"
    unfolding cats_def foldr.simps comp_def opt_def sem_Cat_iff sem_digits sem_Rep_iff
      sem_Eps_iff in_cls_Digit
    by auto
  have "filter is_digit w = a @ b @ c"
    unfolding w using a(1) b(1) c(1) s
    by (simp add: filter_digits_all filter_digits_sep)
  with g a b c show ?thesis
    by simp
qed

lemma filename_date_search:
  assumes "search False filename_date_re name = Some gs"
  shows "\<exists>g. gs = [g] \<and> 6 \<le> length (filter is_digit g) \<and> length (filter is_digit g) \<le> 10"
proof -
  from assms have "gs \<in> caps False filename_date_re"
    by (rule search_caps)
  then show ?thesis
    unfolding filename_date_re_def by (auto dest: filename_date_sem)
qed

lemma fallback_date_cases:
  "(search False filename_date_re (basename pdf_path) = None \<longrightarrow>
      fallback_date pdf_path now = now)
   \<and> (\<forall>gs. search False filename_date_re (basename pdf_path) = Some gs \<longrightarrow>
        (\<exists>g. gs = [g] \<and> fallback_date pdf_path now = g
           \<and> 6 \<le> length (filter is_digit g) \<and> length (filter is_digit g) \<le> 10))"
  by (auto simp: fallback_date_def group_def dest!: filename_date_search)

lemma try_body_read:
  assumes "read_pages pages [] = Inr t"
  shows "try_body pdf_path bank_name (Inr pages) now =
     (let d = fst (dispatch bank_name t (initial_data bank_name))
      in if falsy (date d) then (d\<lparr>date := Some (fallback_date pdf_path now)\<rparr>, None)
         else (d, None))"
proof -
  obtain d where d: "dispatch bank_name t (initial_data bank_name) = (d, None)"
    using dispatch_ok [of bank_name t "initial_data bank_name"]
    by (cases "dispatch bank_name t (initial_data bank_name)") simp
  show ?thesis
    using assms by (simp add: try_body_def d Let_def)
qed

text \<open>
  Claim C5, as stated, fails: when opening the document raises, the dictionary is returned
  as it was created, with \<open>date\<close> still \<open>None\<close>.
\<close>

theorem date_null_after_failed_read:
  "date (extract_data_from_pdf ''bank_statements/statement.pdf'' ''chase'' (Inl ReadError)
     ''2025-04'') = None"
  by (simp add: extract_data_from_pdf_def try_body_def initial_data_def)

text \<open>
  Claim C5, amended. For every document whose pages are all read, the date of the returned
  record is not \<open>None\<close>: when the rule set leaves no date, it is the first match in the base
  name of the file of a run of 6 to 10 digits with optional separators
  (\<open>\d{2,4}[-_]?\d{2}[-_]?\d{2,4}\<close>), and the current year and month when there is no such
  match; otherwise it is the date of the rule set.
\<close>

theorem date_set_when_read:
  assumes "read_pages pages [] = Inr t"
  shows "date (extract_data_from_pdf pdf_path bank_name (Inr pages) now) \<noteq> None
     \<and> (falsy (date (fst (dispatch bank_name t (initial_data bank_name)))) \<longrightarrow>
          date (extract_data_from_pdf pdf_path bank_name (Inr pages) now)
            = Some (fallback_date pdf_path now))
     \<and> (\<not> falsy (date (fst (dispatch bank_name t (initial_data bank_name)))) \<longrightarrow>
          date (extract_data_from_pdf pdf_path bank_name (Inr pages) now)
            = date (fst (dispatch bank_name t (initial_data bank_name))))
     \<and> (search False filename_date_re (basename pdf_path) = None \<longrightarrow>
          fallback_date pdf_path now = now)
     \<and> (\<forall>gs. search False filename_date_re (basename pdf_path) = Some gs \<longrightarrow>
          (\<exists>g. gs = [g] \<and> fallback_date pdf_path now = g
             \<and> 6 \<le> length (filter is_digit g) \<and> length (filter is_digit g) \<le> 10))"
proof -
  let ?d = "fst (dispatch bank_name t (initial_data bank_name))"
  have r: "extract_data_from_pdf pdf_path bank_name (Inr pages) now =
      (if falsy (date ?d) then ?d\<lparr>date := Some (fallback_date pdf_path now)\<rparr> else ?d)"
    by (simp add: extract_data_from_pdf_def try_body_read [OF assms] Let_def)
  have "date (extract_data_from_pdf pdf_path bank_name (Inr pages) now) \<noteq> None"
    unfolding r by (auto simp: falsy_def split: option.splits)
  with r fallback_date_cases [of pdf_path now] show ?thesis
    by simp
qed

theorem date_set_when_read_witness:
  "read_pages [Inr ''nothing''] [] = Inr ''nothing''
   \<and> date (extract_data_from_pdf ''bank_statements/stmt_2025041234.pdf'' ''unknown bank''
        (Inr [Inr ''nothing'']) ''2025-04'') = Some ''2025041234''"
proof -
  have rp: "read_pages [Inr ''nothing''] [] = Inr ''nothing''"
    by simp
  have g1: "first_search balance_patterns ''nothing'' = None"
    and g2: "first_search period_patterns ''nothing'' = None"
    and g3: "first_search credit_patterns ''nothing'' = None"
    and g4: "first_search debit_patterns ''nothing'' = None"
    by code_simp+
  have c: "\<not> contains ''chase'' (lower ''unknown bank'')"
    "\<not> contains ''bank of america'' (lower ''unknown bank'')"
    "\<not> contains ''wells fargo'' (lower ''unknown bank'')"
    "\<not> contains ''citi'' (lower ''unknown bank'')"
    "\<not> contains ''capital one'' (lower ''unknown bank'')"
    by code_simp+
  have d: "dispatch ''unknown bank'' ''nothing'' (initial_data ''unknown bank'')
      = (initial_data ''unknown bank'', None)"
    unfolding dispatch_def Let_def extract_generic_bank_data_def g1 g2 g3 g4
    by (simp add: c step_defs)
  have f: "falsy (date (fst (dispatch ''unknown bank'' ''nothing''
      (initial_data ''unknown bank''))))"
    unfolding d by (simp add: falsy_def initial_data_def)
  have s: "search False filename_date_re (basename ''bank_statements/stmt_2025041234.pdf'')
      = Some [''2025041234'']"
    by code_simp
  have "fallback_date ''bank_statements/stmt_2025041234.pdf'' ''2025-04'' = ''2025041234''"
    unfolding fallback_date_def s by (simp add: group_def)
  with rp f date_set_when_read [OF rp, of "''bank_statements/stmt_2025041234.pdf''"
      "''unknown bank''" "''2025-04''"]
  show ?thesis
    by simp
qed

text \<open>
  Claim C7. No exception leaves \<open>extract_data_from_pdf\<close>: when opening the document or
  reading a page raises, the record returned is the initial one, with the bank, no date,
  balance or period, and zero credits and debits; once the text is read, no step of any
  rule set raises, and the whole body of the \<open>try\<close> ends without an exception, so the record
  has every field that the steps assigned.
\<close>

theorem extraction_never_propagates:
  "(\<forall>e. extract_data_from_pdf pdf_path bank_name (Inl e) now = initial_data bank_name)
   \<and> (\<forall>pages e. read_pages pages [] = Inl e \<longrightarrow>
        extract_data_from_pdf pdf_path bank_name (Inr pages) now = initial_data bank_name)
   \<and> (\<forall>t data. snd (dispatch bank_name t data) = None)
   \<and> (\<forall>pages t. read_pages pages [] = Inr t \<longrightarrow>
        snd (try_body pdf_path bank_name (Inr pages) now) = None)
   \<and> initial_data bank_name =
       \<lparr>bank = bank_name, date = None, closing_balance = None, total_credits = Fin 0,
        total_debits = Fin 0, statement_period = None\<rparr>"
proof (intro conjI allI impI)
  fix e
  show "extract_data_from_pdf pdf_path bank_name (Inl e) now = initial_data bank_name"
    by (simp add: extract_data_from_pdf_def try_body_def)
next
  fix pages e assume "read_pages pages [] = Inl e"
  then show "extract_data_from_pdf pdf_path bank_name (Inr pages) now = initial_data bank_name"
    by (simp add: extract_data_from_pdf_def try_body_def)
next
  fix t data
  show "snd (dispatch bank_name t data) = None"
    by (rule dispatch_ok)
next
  fix pages t assume "read_pages pages [] = Inr t"
  then show "snd (try_body pdf_path bank_name (Inr pages) now) = None"
    by (simp add: try_body_read Let_def)
next
  show "initial_data bank_name =
       \<lparr>bank = bank_name, date = None, closing_balance = None, total_credits = Fin 0,
        total_debits = Fin 0, statement_period = None\<rparr>"
    by (simp add: initial_data_def)
qed

theorem extraction_never_propagates_witness:
  "read_pages [Inr ''Ending Balance 5.00'', Inl ReadError] [] = Inl ReadError
   \<and> extract_data_from_pdf ''bank_statements/statement.pdf'' ''chase''
       (Inr [Inr ''Ending Balance 5.00'', Inl ReadError]) ''2025-04''
     = \<lparr>bank = ''chase'', date = None, closing_balance = None, total_credits = Fin 0,
        total_debits = Fin 0, statement_period = None\<rparr>"
proof -
  have rp: "read_pages [Inr ''Ending Balance 5.00'', Inl ReadError] [] = Inl ReadError"
    by simp
  from extraction_never_propagates [of "''bank_statements/statement.pdf''" "''chase''"
      "''2025-04''"]
  have "extract_data_from_pdf ''bank_statements/statement.pdf'' ''chase''
       (Inr [Inr ''Ending Balance 5.00'', Inl ReadError]) ''2025-04'' = initial_data ''chase''"
    and "initial_data ''chase'' =
       \<lparr>bank = ''chase'', date = None, closing_balance = None, total_credits = Fin 0,
        total_debits = Fin 0, statement_period = None\<rparr>"
    using rp by blast+
  with rp show ?thesis
    by simp
qed

section \<open>The balance patterns and the scan\<close>













lemma scan_cong:
  assumes "\<And>s. f s = g s"
  shows "scan f t = scan g t"
proof -
  have "f = g"
    using assms by (rule ext)
  then show ?thesis
    by simp
qed


























































end
